theory Spec2Isabelle
  imports Complex_Main "HOL-Library.Sublist"
begin

section \<open>Numbers, landmarks and the gesture helpers\<close>

text \<open>
  The repository is TypeScript. A JavaScript \<^verbatim>\<open>number\<close> is modelled by a real number, so
  the arithmetic of the source (\<^verbatim>\<open>+\<close>, \<^verbatim>\<open>*\<close>, \<^verbatim>\<open>**\<close>, \<^verbatim>\<open>Math.sqrt\<close>, the comparisons) is the
  exact arithmetic on \<^typ>\<open>real\<close>; rounding of IEEE doubles is outside the model. The
  counters \<^verbatim>\<open>score\<close> and \<^verbatim>\<open>timer\<close> and the millisecond clock \<^verbatim>\<open>Date.now()\<close> only ever hold
  integers and are modelled by \<^typ>\<open>int\<close>.

  A \<^verbatim>\<open>NormalizedLandmark\<close> carries \<^verbatim>\<open>x\<close>, \<^verbatim>\<open>y\<close> (and \<^verbatim>\<open>z\<close>, which no code of the
  repository reads). A \<^verbatim>\<open>NormalizedLandmarkList\<close> is an array of them.
\<close>

record landmark =
  lm_x :: real
  lm_y :: real

datatype error = TypeError

text \<open>
  \<^verbatim>\<open>landmarks[i].x\<close> and \<^verbatim>\<open>landmarks[i].y\<close>: reading index \<open>i\<close> of an array that is too
  short gives \<^verbatim>\<open>undefined\<close>, and reading a property of \<^verbatim>\<open>undefined\<close> raises a TypeError.
\<close>

definition landmarkX :: "landmark list \<Rightarrow> nat \<Rightarrow> error + real" where
  "landmarkX landmarks i =
     (if i < length landmarks then Inr (lm_x (landmarks ! i)) else Inl TypeError)"

definition landmarkY :: "landmark list \<Rightarrow> nat \<Rightarrow> error + real" where
  "landmarkY landmarks i =
     (if i < length landmarks then Inr (lm_y (landmarks ! i)) else Inl TypeError)"

text \<open>
  The callback shared by both helpers:
  \<^verbatim>\<open>(tip) => landmarks[tip].y > landmarks[tip - 2].y + 0.03\<close>.
  The left operand is evaluated first, then the right one.
\<close>

definition tipBelowJoint :: "landmark list \<Rightarrow> nat \<Rightarrow> error + bool" where
  "tipBelowJoint landmarks tip =
     (case landmarkY landmarks tip of
        Inl e \<Rightarrow> Inl e
      | Inr a \<Rightarrow>
          (case landmarkY landmarks (tip - 2) of
             Inl e \<Rightarrow> Inl e
           | Inr b \<Rightarrow> Inr (a > b + 3 / 100)))"

text \<open>
  \<^verbatim>\<open>Array.prototype.every\<close>: the callback runs on the elements in order and the loop stops
  at the first \<^verbatim>\<open>false\<close>; an exception of the callback leaves the loop.
\<close>

fun every :: "('a \<Rightarrow> error + bool) \<Rightarrow> 'a list \<Rightarrow> error + bool" where
  "every p [] = Inr True"
| "every p (t # ts) =
     (case p t of
        Inl e \<Rightarrow> Inl e
      | Inr b \<Rightarrow> (if b then every p ts else Inr False))"

text \<open>\<^verbatim>\<open>isHandClosed\<close> of \<^verbatim>\<open>src/HandCanvas.tsx\<close>.\<close>

definition isHandClosed :: "landmark list \<Rightarrow> error + bool" where
  "isHandClosed landmarks = every (tipBelowJoint landmarks) [8, 12, 16, 20]"

text \<open>
  \<^verbatim>\<open>isOnlyOneFingerUp\<close> of \<^verbatim>\<open>src/handGameUtils.ts\<close> (and, with the same text, of
  \<^verbatim>\<open>src/HandCanvas.tsx\<close>). Both constants are computed before the conjunction, so the
  loop over the other fingers runs whatever \<^verbatim>\<open>indexUp\<close> is.
\<close>

definition isOnlyOneFingerUp :: "landmark list \<Rightarrow> error + bool" where
  "isOnlyOneFingerUp landmarks =
     (case landmarkY landmarks 8 of
        Inl e \<Rightarrow> Inl e
      | Inr a \<Rightarrow>
          (case landmarkY landmarks 6 of
             Inl e \<Rightarrow> Inl e
           | Inr b \<Rightarrow>
               (let indexUp = (a < b - 3 / 100) in
                case every (tipBelowJoint landmarks) [12, 16, 20] of
                  Inl e \<Rightarrow> Inl e
                | Inr othersDown \<Rightarrow> Inr (indexUp \<and> othersDown))))"

section \<open>The drawing canvas\<close>

text \<open>
  \<^verbatim>\<open>src/HandCanvas.tsx\<close>: the component state that the frame callback and the click handler
  change. \<^verbatim>\<open>pathRef\<close> and \<^verbatim>\<open>drawing\<close> are refs, \<^verbatim>\<open>showClear\<close> and \<^verbatim>\<open>gesture\<close> are React state.
  The info message is a string shown to the user that no branch reads back; it is left out,
  as are the calls that paint the canvas.
\<close>

record point =
  pt_x :: real
  pt_y :: real

datatype gesture_label = Drawing | Closed | One_finger

record draw_state =
  path :: "point list"
  drawing :: bool
  showClear :: bool
  gesture :: gesture_label

definition CANVAS_WIDTH :: real where "CANVAS_WIDTH = 640"
definition CANVAS_HEIGHT :: real where "CANVAS_HEIGHT = 480"
definition BUTTON_WIDTH :: real where "BUTTON_WIDTH = 90"
definition BUTTON_HEIGHT :: real where "BUTTON_HEIGHT = 40"
definition BUTTON_X :: real where "BUTTON_X = CANVAS_WIDTH - BUTTON_WIDTH - 16"
definition BUTTON_Y :: real where "BUTTON_Y = CANVAS_HEIGHT - BUTTON_HEIGHT - 16"

definition isFingerInButton :: "real \<Rightarrow> real \<Rightarrow> bool" where
  "isFingerInButton x y \<longleftrightarrow>
     x > BUTTON_X \<and> x < BUTTON_X + BUTTON_WIDTH \<and> y > BUTTON_Y \<and> y < BUTTON_Y + BUTTON_HEIGHT"

definition handleClear :: "draw_state \<Rightarrow> draw_state" where
  "handleClear s = s\<lparr>path := []\<rparr>"

text \<open>
  \<^verbatim>\<open>handleCanvasClick\<close>: the click position relative to the canvas rectangle is tested against
  the button. The canvas carries the handler, so \<^verbatim>\<open>canvasRef.current\<close> is set when it runs.
\<close>

definition handleCanvasClick :: "draw_state \<Rightarrow> real \<Rightarrow> real \<Rightarrow> real \<Rightarrow> real \<Rightarrow> draw_state" where
  "handleCanvasClick s clientX clientY rectLeft rectTop =
     (let x = clientX - rectLeft; y = clientY - rectTop
      in if isFingerInButton x y then handleClear s else s)"

text \<open>
  The argument of the frame callback is \<^verbatim>\<open>results.multiHandLandmarks\<close>: absent, or an array
  of landmark lists of which only the first is read.

  \<open>onResultsTry\<close> is the body of the \<^verbatim>\<open>try\<close> block of the callback of \<^verbatim>\<open>src/HandCanvas.tsx\<close>
  (the mirrored copy of the file has the same statements on the refs and the state).
  Every read that can raise (\<^verbatim>\<open>tip.x\<close>, \<^verbatim>\<open>tip.y\<close>, the two helpers) comes before the first
  assignment, so an exception leaves the state as it was, and the \<^verbatim>\<open>catch\<close> only logs:
  that is \<open>onResults\<close>.
\<close>

definition onResultsTry :: "draw_state \<Rightarrow> landmark list list option \<Rightarrow> error + draw_state" where
  "onResultsTry s multiHandLandmarks =
     (case multiHandLandmarks of
        Some (landmarks # _) \<Rightarrow>
          (case landmarkX landmarks 8 of
             Inl e \<Rightarrow> Inl e
           | Inr tx \<Rightarrow>
          (case landmarkY landmarks 8 of
             Inl e \<Rightarrow> Inl e
           | Inr ty \<Rightarrow>
          (let x = tx * CANVAS_WIDTH; y = ty * CANVAS_HEIGHT in
          (case isHandClosed landmarks of
             Inl e \<Rightarrow> Inl e
           | Inr isClosed \<Rightarrow>
          (case isOnlyOneFingerUp landmarks of
             Inl e \<Rightarrow> Inl e
           | Inr isOneFinger \<Rightarrow>
          (let s1 = (if isClosed then s\<lparr>gesture := Closed, drawing := False\<rparr>
                     else if isOneFinger then s\<lparr>gesture := One_finger\<rparr>
                     else s\<lparr>gesture := Drawing, drawing := False\<rparr>);
               s2 = (if isOneFinger then
                       (if \<not> drawing s1
                        then s1\<lparr>path := [\<lparr>pt_x = x, pt_y = y\<rparr>], drawing := True\<rparr>
                        else s1\<lparr>path := path s1 @ [\<lparr>pt_x = x, pt_y = y\<rparr>]\<rparr>)
                     else s1\<lparr>drawing := False\<rparr>)
           in Inr s2))))))
      | _ \<Rightarrow> Inr (s\<lparr>drawing := False, showClear := False, gesture := Drawing\<rparr>))"

definition onResults :: "draw_state \<Rightarrow> landmark list list option \<Rightarrow> draw_state" where
  "onResults s multiHandLandmarks =
     (case onResultsTry s multiHandLandmarks of Inl e \<Rightarrow> s | Inr s' \<Rightarrow> s')"

text \<open>
  The earlier drawing canvas (second file of \<^verbatim>\<open>src/unnamed/part_002\<close>) has no gesture test:
  every frame with a hand tests the fingertip against the clear button and then draws.
  Again nothing is assigned before \<^verbatim>\<open>tip.x\<close> and \<^verbatim>\<open>tip.y\<close> are read.

  \<open>fingerClear\<close> is the first of the two statements, the clear action triggered by the position
  of the finger: \<^verbatim>\<open>if (isFingerInButton(x, y)) { setShowClear(true); handleClear(); } else
  { setShowClear(false); }\<close>. \<open>drawStep_v1\<close> is the second, the statement that starts or
  extends the path.
\<close>

definition fingerClear :: "draw_state \<Rightarrow> real \<Rightarrow> real \<Rightarrow> draw_state" where
  "fingerClear s x y =
     (if isFingerInButton x y then handleClear (s\<lparr>showClear := True\<rparr>)
      else s\<lparr>showClear := False\<rparr>)"

definition drawStep_v1 :: "draw_state \<Rightarrow> real \<Rightarrow> real \<Rightarrow> draw_state" where
  "drawStep_v1 s x y =
     (if \<not> drawing s
      then s\<lparr>path := [\<lparr>pt_x = x, pt_y = y\<rparr>], drawing := True\<rparr>
      else s\<lparr>path := path s @ [\<lparr>pt_x = x, pt_y = y\<rparr>]\<rparr>)"

definition onResultsTry_v1 :: "draw_state \<Rightarrow> landmark list list option \<Rightarrow> error + draw_state" where
  "onResultsTry_v1 s multiHandLandmarks =
     (case multiHandLandmarks of
        Some (landmarks # _) \<Rightarrow>
          (case landmarkX landmarks 8 of
             Inl e \<Rightarrow> Inl e
           | Inr tx \<Rightarrow>
          (case landmarkY landmarks 8 of
             Inl e \<Rightarrow> Inl e
           | Inr ty \<Rightarrow>
          (let x = tx * CANVAS_WIDTH; y = ty * CANVAS_HEIGHT;
               s1 = fingerClear s x y;
               s2 = drawStep_v1 s1 x y
           in Inr s2)))
      | _ \<Rightarrow> Inr (s\<lparr>drawing := False, showClear := False\<rparr>))"

definition onResults_v1 :: "draw_state \<Rightarrow> landmark list list option \<Rightarrow> draw_state" where
  "onResults_v1 s multiHandLandmarks =
     (case onResultsTry_v1 s multiHandLandmarks of Inl e \<Rightarrow> s | Inr s' \<Rightarrow> s')"

text \<open>The state of a freshly mounted canvas, and a run of the canvas over its events.\<close>

definition draw_initial :: draw_state where
  "draw_initial = \<lparr>path = [], drawing = False, showClear = False, gesture = Drawing\<rparr>"

datatype draw_event =
  Frame "landmark list list option"
| Click real real real real

fun draw_step :: "draw_state \<Rightarrow> draw_event \<Rightarrow> draw_state" where
  "draw_step s (Frame multiHandLandmarks) = onResults s multiHandLandmarks"
| "draw_step s (Click clientX clientY rectLeft rectTop) =
     handleCanvasClick s clientX clientY rectLeft rectTop"

definition draw_run :: "draw_state \<Rightarrow> draw_event list \<Rightarrow> draw_state" where
  "draw_run s evs = foldl draw_step s evs"

section \<open>The bird game\<close>

text \<open>
  \<^verbatim>\<open>src/handGameUtils.ts\<close> and the game component (\<^verbatim>\<open>src/unnamed/part_001\<close>; the first file
  of \<^verbatim>\<open>src/unnamed/part_002\<close> is the same component with the helpers inlined).
\<close>

record bird =
  bird_x :: real
  bird_y :: real
  bird_vx :: real
  bird_vy :: real
  bird_radius :: real
  bird_hit :: bool

record score_pop =
  pop_x :: real
  pop_y :: real
  pop_value :: int
  pop_time :: int

definition GAME_DURATION :: int where "GAME_DURATION = 60"
definition BIRD_RADIUS :: real where "BIRD_RADIUS = 28"
definition BIRD_SPEED :: real where "BIRD_SPEED = 9 / 2"
definition BIRD_SPAWN_INTERVAL :: int where "BIRD_SPAWN_INTERVAL = 1200"

text \<open>
  \<^verbatim>\<open>randomBird\<close> calls \<^verbatim>\<open>Math.random()\<close> three times; the three results are the arguments
  \<open>r1\<close>, \<open>r2\<close>, \<open>r3\<close>, in the order of the calls. Each lies in \<open>[0, 1)\<close>.
\<close>

definition randomBird :: "real \<Rightarrow> real \<Rightarrow> real \<Rightarrow> real \<Rightarrow> real \<Rightarrow> bird" where
  "randomBird width height r1 r2 r3 =
     (let fromLeft = (r1 > 1 / 2);
          y = 80 + r2 * (height - 160)
      in \<lparr>bird_x = (if fromLeft then - BIRD_RADIUS else width + BIRD_RADIUS),
          bird_y = y,
          bird_vx = (if fromLeft then BIRD_SPEED else - BIRD_SPEED),
          bird_vy = (r3 - 1 / 2) * (12 / 10),
          bird_radius = BIRD_RADIUS,
          bird_hit = False\<rparr>)"

definition dist :: "real \<Rightarrow> real \<Rightarrow> real \<Rightarrow> real \<Rightarrow> real" where
  "dist x1 y1 x2 y2 = sqrt ((x1 - x2)\<^sup>2 + (y1 - y2)\<^sup>2)"

text \<open>
  The component state: \<^verbatim>\<open>score\<close>, \<^verbatim>\<open>timer\<close>, \<^verbatim>\<open>gameOver\<close>, \<^verbatim>\<open>started\<close> and \<^verbatim>\<open>pop\<close> are React
  state, always changed through updater functions or constants; \<^verbatim>\<open>birdsRef\<close>,
  \<^verbatim>\<open>lastBirdSpawn\<close> and \<^verbatim>\<open>lastHandLandmarks\<close> are refs. The canvas size \<^verbatim>\<open>canvasDims\<close> is an
  argument of the callbacks that read it (every effect that captures it is set up again
  when it changes). The info message is left out as before.
\<close>

record game_state =
  score :: int
  timer :: int
  gameOver :: bool
  started :: bool
  pop :: "score_pop list"
  birds :: "bird list"
  lastBirdSpawn :: int
  lastHandLandmarks :: "landmark list option"

definition game_initial :: "int \<Rightarrow> game_state" where
  "game_initial now =
     \<lparr>score = 0, timer = GAME_DURATION, gameOver = False, started = False, pop = [],
      birds = [], lastBirdSpawn = now, lastHandLandmarks = None\<rparr>"

definition handleClear_game :: "game_state \<Rightarrow> game_state" where
  "handleClear_game s = s\<lparr>score := 0, timer := GAME_DURATION, gameOver := False, birds := []\<rparr>"

text \<open>The two buttons: \<^verbatim>\<open>Start Game\<close> and \<^verbatim>\<open>Play Again\<close>.\<close>

definition startGame :: "game_state \<Rightarrow> game_state" where
  "startGame s = handleClear_game (s\<lparr>started := True\<rparr>)"

definition playAgain :: "game_state \<Rightarrow> game_state" where
  "playAgain s = handleClear_game (s\<lparr>started := False\<rparr>)"

text \<open>
  One firing of the one-second interval. The interval exists only while the game is
  started and not over (the effect clears it otherwise).
\<close>

definition timerTick :: "game_state \<Rightarrow> game_state" where
  "timerTick s =
     (if \<not> started s \<or> gameOver s then s
      else if timer s \<le> 1 then s\<lparr>gameOver := True, timer := 0\<rparr>
      else s\<lparr>timer := timer s - 1\<rparr>)"

text \<open>
  One firing of the 30 ms interval: move the birds, drop those out of bounds or hit, spawn.
  \<open>now\<close> is the value of \<^verbatim>\<open>Date.now()\<close> in this firing.
\<close>

definition moveBird :: "bird \<Rightarrow> bird" where
  "moveBird b = b\<lparr>bird_x := bird_x b + bird_vx b, bird_y := bird_y b + bird_vy b\<rparr>"

definition keepBird :: "real \<Rightarrow> real \<Rightarrow> bird \<Rightarrow> bool" where
  "keepBird width height b \<longleftrightarrow>
     bird_x b > - BIRD_RADIUS \<and> bird_x b < width + BIRD_RADIUS \<and>
     bird_y b > - BIRD_RADIUS \<and> bird_y b < height + BIRD_RADIUS \<and> \<not> bird_hit b"

definition moveAndCull :: "real \<Rightarrow> real \<Rightarrow> bird list \<Rightarrow> bird list" where
  "moveAndCull width height bs = filter (keepBird width height) (map moveBird bs)"

definition gameTick :: "real \<Rightarrow> real \<Rightarrow> int \<Rightarrow> real \<Rightarrow> real \<Rightarrow> real \<Rightarrow> game_state \<Rightarrow> game_state" where
  "gameTick width height now r1 r2 r3 s =
     (if \<not> started s \<or> gameOver s then s
      else
        (let bs = moveAndCull width height (birds s)
         in if now - lastBirdSpawn s > BIRD_SPAWN_INTERVAL
            then s\<lparr>birds := bs @ [randomBird width height r1 r2 r3], lastBirdSpawn := now\<rparr>
            else s\<lparr>birds := bs\<rparr>))"

text \<open>The pop filter of one animation frame (the animation runs while started and not over).\<close>

definition animate :: "int \<Rightarrow> game_state \<Rightarrow> game_state" where
  "animate now s =
     (if \<not> started s \<or> gameOver s then s
      else s\<lparr>pop := filter (\<lambda>p. now - pop_time p < 700) (pop s)\<rparr>)"

text \<open>
  The hit test of the frame callback. \<open>hitBird\<close> is the body of the \<^verbatim>\<open>forEach\<close> callback for
  one bird: the state carries the birds already visited. \<open>x\<close>, \<open>y\<close> is the mirrored
  fingertip on the screen.
\<close>

definition isHit :: "real \<Rightarrow> real \<Rightarrow> bird \<Rightarrow> bool" where
  "isHit x y b \<longleftrightarrow> \<not> bird_hit b \<and> dist x y (bird_x b) (bird_y b) < bird_radius b + 18"

definition hitBird :: "real \<Rightarrow> real \<Rightarrow> int \<Rightarrow> game_state \<Rightarrow> bird \<Rightarrow> game_state" where
  "hitBird x y now s b =
     (if isHit x y b
      then s\<lparr>birds := birds s @ [b\<lparr>bird_hit := True\<rparr>],
             score := score s + 1,
             pop := pop s @ [\<lparr>pop_x = bird_x b, pop_y = bird_y b, pop_value = 1, pop_time = now\<rparr>]\<rparr>
      else s\<lparr>birds := birds s @ [b]\<rparr>)"

definition hitBirds :: "real \<Rightarrow> real \<Rightarrow> int \<Rightarrow> game_state \<Rightarrow> game_state" where
  "hitBirds x y now s = foldl (hitBird x y now) (s\<lparr>birds := []\<rparr>) (birds s)"

text \<open>
  The frame callback of the game has no \<^verbatim>\<open>try\<close>: an exception of \<^verbatim>\<open>isOnlyOneFingerUp\<close>
  leaves the callback after \<^verbatim>\<open>lastHandLandmarks\<close> was assigned. The result is the state
  together with the exception raised, if any.
\<close>

definition onResults_game ::
  "real \<Rightarrow> real \<Rightarrow> int \<Rightarrow> game_state \<Rightarrow> landmark list list option \<Rightarrow> game_state \<times> error option" where
  "onResults_game width height now s multiHandLandmarks =
     (if \<not> started s \<or> gameOver s then (s, None)
      else
        (case multiHandLandmarks of
           Some (landmarks # _) \<Rightarrow>
             (let s1 = s\<lparr>lastHandLandmarks := Some landmarks\<rparr>
              in case isOnlyOneFingerUp landmarks of
                   Inl e \<Rightarrow> (s1, Some e)
                 | Inr isOneFinger \<Rightarrow>
                     (if isOneFinger
                      then
                        (case landmarkX landmarks 8 of
                           Inl e \<Rightarrow> (s1, Some e)
                         | Inr tx \<Rightarrow>
                        (case landmarkY landmarks 8 of
                           Inl e \<Rightarrow> (s1, Some e)
                         | Inr ty \<Rightarrow>
                        (let x = (1 - tx) * width; y = ty * height
                         in (hitBirds x y now s1, None))))
                      else (s1, None)))
         | _ \<Rightarrow> (s\<lparr>lastHandLandmarks := None\<rparr>, None)))"

text \<open>
  A run of the 30 ms interval: one entry of the list for each firing, with the clock and
  the three random numbers of that firing.
\<close>

fun gameTicks :: "real \<Rightarrow> real \<Rightarrow> game_state \<Rightarrow> (int \<times> real \<times> real \<times> real) list \<Rightarrow> game_state" where
  "gameTicks width height s [] = s"
| "gameTicks width height s ((now, r1, r2, r3) # rest) =
     gameTicks width height (gameTick width height now r1 r2 r3 s) rest"

section \<open>Notions used to state the properties\<close>

text \<open>
  The fingertip point that the drawing canvas computes from a landmark list with a point 8:
  \<^verbatim>\<open>{ x: tip.x * CANVAS_WIDTH, y: tip.y * CANVAS_HEIGHT }\<close>.
\<close>

definition tipPoint :: "landmark list \<Rightarrow> point" where
  "tipPoint landmarks =
     \<lparr>pt_x = lm_x (landmarks ! 8) * CANVAS_WIDTH, pt_y = lm_y (landmarks ! 8) * CANVAS_HEIGHT\<rparr>"

text \<open>
  A frame is a one-finger-up frame when it has a hand on which \<^verbatim>\<open>isOnlyOneFingerUp\<close> returns
  true; \<open>strokePoint\<close> is then the point it contributes to a stroke. A frame raises when one of
  the reads of the callback raises.
\<close>

definition strokePoint :: "landmark list list option \<Rightarrow> point option" where
  "strokePoint multiHandLandmarks =
     (case multiHandLandmarks of
        Some (landmarks # _) \<Rightarrow>
          (if isOnlyOneFingerUp landmarks = Inr True then Some (tipPoint landmarks) else None)
      | _ \<Rightarrow> None)"

definition oneFingerUp :: "landmark list list option \<Rightarrow> bool" where
  "oneFingerUp multiHandLandmarks \<longleftrightarrow> strokePoint multiHandLandmarks \<noteq> None"

definition frameRaises :: "landmark list list option \<Rightarrow> bool" where
  "frameRaises multiHandLandmarks =
     (case multiHandLandmarks of
        Some (landmarks # _) \<Rightarrow>
          isl (landmarkX landmarks 8) \<or> isl (isHandClosed landmarks) \<or>
          isl (isOnlyOneFingerUp landmarks)
      | _ \<Rightarrow> False)"

text \<open>
  The most recent stroke of a sequence of frames, in the words of the specification: leave
  out the frames that raised, drop the frames after the last one-finger-up frame, and take
  the longest run of one-finger-up frames that ends there.
\<close>

definition lastStroke :: "landmark list list option list \<Rightarrow> point list" where
  "lastStroke frames =
     rev (map (the \<circ> strokePoint)
       (takeWhile oneFingerUp
         (dropWhile (Not \<circ> oneFingerUp)
           (rev (filter (Not \<circ> frameRaises) frames)))))"

text \<open>Whether the last frame that did not raise was a one-finger-up frame.\<close>

definition strokeActive :: "landmark list list option list \<Rightarrow> bool" where
  "strokeActive frames =
     (case rev (filter (Not \<circ> frameRaises) frames) of [] \<Rightarrow> False | f # _ \<Rightarrow> oneFingerUp f)"

fun framesOf :: "draw_event list \<Rightarrow> landmark list list option list" where
  "framesOf [] = []"
| "framesOf (Frame f # evs) = f # framesOf evs"
| "framesOf (Click _ _ _ _ # evs) = framesOf evs"

fun isClick :: "draw_event \<Rightarrow> bool" where
  "isClick (Frame _) = False"
| "isClick (Click _ _ _ _) = True"

text \<open>
  Hands for the examples: 21 landmarks, all with the given \<open>x\<close>; every point has the
  \<open>y\<close> given for the joints but the four fingertips 8, 12, 16 and 20, whose \<open>y\<close> are given.
\<close>

definition sampleHand :: "real \<Rightarrow> real \<Rightarrow> real \<Rightarrow> real \<Rightarrow> real \<Rightarrow> real \<Rightarrow> landmark list" where
  "sampleHand tx j y8 y12 y16 y20 =
     map (\<lambda>y. \<lparr>lm_x = tx, lm_y = y\<rparr>)
       [j, j, j, j, j, j, j, j, y8, j, j, j, y12, j, j, j, y16, j, j, j, y20]"

text \<open>A fist, a pointing hand (index up, the others folded), and a hand on the margin.\<close>

definition fistHand :: "landmark list" where
  "fistHand = sampleHand (1 / 2) (1 / 2) (3 / 4) (3 / 4) (3 / 4) (3 / 4)"

definition pointingHand :: "landmark list" where
  "pointingHand = sampleHand (1 / 2) (1 / 2) (1 / 4) (3 / 4) (3 / 4) (3 / 4)"

definition marginHand :: "landmark list" where
  "marginHand = sampleHand (1 / 2) 0 (3 / 100) (3 / 100) (3 / 100) (3 / 100)"

text \<open>A second pointing hand further left, and a hand whose fingertip is over the clear button.\<close>

definition pointingHand2 :: "landmark list" where
  "pointingHand2 = sampleHand (1 / 4) (1 / 2) (1 / 4) (3 / 4) (3 / 4) (3 / 4)"

definition buttonHand :: "landmark list" where
  "buttonHand = sampleHand (7 / 8) (15 / 16) (15 / 16) (15 / 16) (15 / 16) (15 / 16)"

text \<open>
  A running game on a canvas of 210 by 412 with four birds: two overlapping live birds near
  the point \<open>(105, 103)\<close>, one bird there that is already hit, and one live bird far away.
\<close>

definition sampleBird :: "real \<Rightarrow> real \<Rightarrow> bool \<Rightarrow> bird" where
  "sampleBird x y h =
     \<lparr>bird_x = x, bird_y = y, bird_vx = 9 / 2, bird_vy = 0, bird_radius = 28, bird_hit = h\<rparr>"

definition sampleGame :: game_state where
  "sampleGame =
     \<lparr>score = 3, timer = 42, gameOver = False, started = True, pop = [],
      birds = [sampleBird 100 100 False, sampleBird 120 110 False,
               sampleBird 105 103 True, sampleBird 200 400 False],
      lastBirdSpawn = 900, lastHandLandmarks = None\<rparr>"

text \<open>
  The same game after the frame callback ran, at time 1000, on a frame with the pointing
  hand, whose mirrored fingertip is at \<open>(105, 103)\<close>.
\<close>

definition sampleGameAfterHit :: game_state where
  "sampleGameAfterHit = fst (onResults_game 210 412 1000 sampleGame (Some [pointingHand]))"

section \<open>The gesture helpers: which reads they make\<close>

lemmas classifier_defs = isOnlyOneFingerUp_def isHandClosed_def tipBelowJoint_def landmarkY_def

lemma classifier_total:
  "21 \<le> length lm \<Longrightarrow> (\<exists>b. isOnlyOneFingerUp lm = Inr b) \<and> (\<exists>b. isHandClosed lm = Inr b)"
  by (auto simp add: classifier_defs Let_def)

lemma classifier_short:
  "length lm < 9 \<Longrightarrow> isOnlyOneFingerUp lm = Inl TypeError \<and> isHandClosed lm = Inl TypeError"
  by (simp add: classifier_defs)

lemma onResults_short: "length lm < 9 \<Longrightarrow> onResults s (Some (lm # rest)) = s"
  by (simp add: onResults_def onResultsTry_def landmarkX_def)

lemma onResults_game_short:
  "started g \<Longrightarrow> \<not> gameOver g \<Longrightarrow> length lm < 9 \<Longrightarrow>
   onResults_game w h now g (Some (lm # rest)) = (g\<lparr>lastHandLandmarks := Some lm\<rparr>, Some TypeError)"
  by (simp add: onResults_game_def classifier_short)

lemma closed_not_oneFinger: "isHandClosed lm = Inr True \<Longrightarrow> isOnlyOneFingerUp lm = Inr False"
  by (auto simp add: classifier_defs Let_def split: if_splits)

lemma oneFinger_not_closed: "isOnlyOneFingerUp lm = Inr True \<Longrightarrow> isHandClosed lm = Inr False"
  by (auto simp add: classifier_defs Let_def split: if_splits)

lemma oneFinger_length: "isOnlyOneFingerUp lm = Inr True \<Longrightarrow> 21 \<le> length lm"
  by (auto simp add: classifier_defs Let_def split: if_splits)

lemma closed_length: "isHandClosed lm = Inr True \<Longrightarrow> 21 \<le> length lm"
  by (auto simp add: classifier_defs Let_def split: if_splits)

lemma closed_iff:
  "isHandClosed lm = Inr True \<longleftrightarrow>
     21 \<le> length lm \<and>
     lm_y (lm ! 8) > lm_y (lm ! 6) + 3 / 100 \<and> lm_y (lm ! 12) > lm_y (lm ! 10) + 3 / 100 \<and>
     lm_y (lm ! 16) > lm_y (lm ! 14) + 3 / 100 \<and> lm_y (lm ! 20) > lm_y (lm ! 18) + 3 / 100"
  by (auto simp add: classifier_defs Let_def split: if_splits)

lemma onResults_oneFinger:
  assumes "isOnlyOneFingerUp lm = Inr True"
  shows "onResults s (Some (lm # rest)) =
     (if drawing s then s\<lparr>gesture := One_finger, path := path s @ [tipPoint lm]\<rparr>
      else s\<lparr>gesture := One_finger, path := [tipPoint lm], drawing := True\<rparr>)"
  using oneFinger_length[OF assms] oneFinger_not_closed[OF assms] assms
  by (simp add: onResults_def onResultsTry_def landmarkX_def landmarkY_def tipPoint_def Let_def)

lemma onResults_closed:
  assumes "isHandClosed lm = Inr True"
  shows "onResults s (Some (lm # rest)) = s\<lparr>gesture := Closed, drawing := False\<rparr>"
  using closed_length[OF assms] closed_not_oneFinger[OF assms] assms
  by (simp add: onResults_def onResultsTry_def landmarkX_def landmarkY_def Let_def)

text \<open>The example hands.\<close>

lemma length_sampleHand: "length (sampleHand tx j y8 y12 y16 y20) = 21"
  by (simp add: sampleHand_def)

lemma fistHand_closed: "isHandClosed fistHand = Inr True"
  by (simp add: fistHand_def sampleHand_def classifier_defs)

lemma pointingHand_oneFinger: "isOnlyOneFingerUp pointingHand = Inr True"
  by (simp add: pointingHand_def sampleHand_def classifier_defs)

lemma pointingHand2_oneFinger: "isOnlyOneFingerUp pointingHand2 = Inr True"
  by (simp add: pointingHand2_def sampleHand_def classifier_defs)

lemma tipPoint_pointingHand: "tipPoint pointingHand = \<lparr>pt_x = 320, pt_y = 120\<rparr>"
  by (simp add: pointingHand_def sampleHand_def tipPoint_def CANVAS_WIDTH_def CANVAS_HEIGHT_def)

lemma tipPoint_pointingHand2: "tipPoint pointingHand2 = \<lparr>pt_x = 160, pt_y = 120\<rparr>"
  by (simp add: pointingHand2_def sampleHand_def tipPoint_def CANVAS_WIDTH_def CANVAS_HEIGHT_def)

section \<open>Malformed landmark lists\<close>

text \<open>
  C2, as stated, fails: on the empty landmark list \<^verbatim>\<open>isOnlyOneFingerUp\<close> raises a TypeError
  (\<^verbatim>\<open>landmarks[8]\<close> is \<^verbatim>\<open>undefined\<close>); it does not return, and there is no no-hand result.
\<close>

theorem isOnlyOneFingerUp_empty_list_raises:
  "isOnlyOneFingerUp [] = Inl TypeError"
  by (simp add: classifier_defs)

text \<open>
  C2, amended. The helpers do not check the length of the list. On every list of at least
  21 points \<^verbatim>\<open>isOnlyOneFingerUp\<close> and \<^verbatim>\<open>isHandClosed\<close> return a boolean and do not raise. On
  every list of fewer than 9 points both raise a TypeError; the frame callback of the
  drawing canvas catches it and leaves its state (path, drawing flag, gesture) as it was,
  while the frame callback of the running game lets it escape, after storing the list.
\<close>

theorem classifier_raises_on_short_lists_only:
  "(21 \<le> length lm \<longrightarrow> \<not> isl (isOnlyOneFingerUp lm) \<and> \<not> isl (isHandClosed lm)) \<and>
   (length lm < 9 \<longrightarrow>
      isOnlyOneFingerUp lm = Inl TypeError \<and> isHandClosed lm = Inl TypeError \<and>
      onResults s (Some (lm # rest)) = s \<and>
      (started g \<and> \<not> gameOver g \<longrightarrow>
         onResults_game w h now g (Some (lm # rest)) =
           (g\<lparr>lastHandLandmarks := Some lm\<rparr>, Some TypeError)))"
proof (intro conjI impI)
  assume "21 \<le> length lm"
  from classifier_total[OF this]
  show "\<not> isl (isOnlyOneFingerUp lm)" and "\<not> isl (isHandClosed lm)" by auto
next
  assume short: "length lm < 9"
  from classifier_short[OF this]
  show "isOnlyOneFingerUp lm = Inl TypeError" and "isHandClosed lm = Inl TypeError" by simp_all
  show "onResults s (Some (lm # rest)) = s" using short by (rule onResults_short)
  assume "started g \<and> \<not> gameOver g"
  then show "onResults_game w h now g (Some (lm # rest)) =
      (g\<lparr>lastHandLandmarks := Some lm\<rparr>, Some TypeError)"
    using short by (simp add: onResults_game_short)
qed

theorem classifier_raises_on_short_lists_only_witness:
  "21 \<le> length fistHand \<and> \<not> isl (isOnlyOneFingerUp fistHand) \<and> \<not> isl (isHandClosed fistHand) \<and>
   length ([] :: landmark list) < 9 \<and>
   isHandClosed [] = Inl TypeError \<and>
   onResults draw_initial (Some [[]]) = draw_initial \<and>
   started sampleGame \<and> \<not> gameOver sampleGame \<and>
   onResults_game 210 412 1000 sampleGame (Some [[]]) =
     (sampleGame\<lparr>lastHandLandmarks := Some []\<rparr>, Some TypeError)"
  using classifier_raises_on_short_lists_only
          [of fistHand draw_initial "[]" sampleGame 210 412 1000]
        classifier_raises_on_short_lists_only
          [of "[]" draw_initial "[]" sampleGame 210 412 1000]
  by (simp add: fistHand_def length_sampleHand sampleGame_def)

section \<open>A closed hand is never a pointing hand\<close>

text \<open>
  C3, as stated, fails on the margin: with every fingertip exactly 0.03 below its joint
  (``at least 0.03'') \<^verbatim>\<open>isHandClosed\<close> returns false, since the comparison of the source is
  strict, and the gesture of the frame is not \<^verbatim>\<open>closed\<close>.
\<close>

theorem marginHand_not_closed:
  "length marginHand = 21 \<and>
   lm_y (marginHand ! 8) \<ge> lm_y (marginHand ! 6) + 3 / 100 \<and>
   lm_y (marginHand ! 12) \<ge> lm_y (marginHand ! 10) + 3 / 100 \<and>
   lm_y (marginHand ! 16) \<ge> lm_y (marginHand ! 14) + 3 / 100 \<and>
   lm_y (marginHand ! 20) \<ge> lm_y (marginHand ! 18) + 3 / 100 \<and>
   isHandClosed marginHand = Inr False \<and>
   gesture (onResults (draw_initial\<lparr>gesture := One_finger\<rparr>) (Some [marginHand])) = Drawing"
  by (simp add: marginHand_def sampleHand_def classifier_defs onResults_def onResultsTry_def
        landmarkX_def draw_initial_def)

text \<open>
  C3, amended. For every landmark set (21 points) in which each fingertip 8, 12, 16, 20
  lies below its joint 6, 10, 14, 18 by more than 0.03, \<^verbatim>\<open>isHandClosed\<close> is true,
  \<^verbatim>\<open>isOnlyOneFingerUp\<close> is false, and the frame sets the gesture to \<^verbatim>\<open>closed\<close>, stops drawing
  and keeps the path. On no landmark list are \<^verbatim>\<open>isHandClosed\<close> and \<^verbatim>\<open>isOnlyOneFingerUp\<close> both
  true; and \<^verbatim>\<open>isOnlyOneFingerUp\<close> is not true as soon as fingertip 8 lies below joint 6 by at
  least 0.03.
\<close>

theorem closed_hand_is_closed_and_not_one_finger:
  "(21 \<le> length lm \<and>
    lm_y (lm ! 8) > lm_y (lm ! 6) + 3 / 100 \<and> lm_y (lm ! 12) > lm_y (lm ! 10) + 3 / 100 \<and>
    lm_y (lm ! 16) > lm_y (lm ! 14) + 3 / 100 \<and> lm_y (lm ! 20) > lm_y (lm ! 18) + 3 / 100 \<longrightarrow>
      isHandClosed lm = Inr True \<and> isOnlyOneFingerUp lm = Inr False \<and>
      gesture (onResults s (Some (lm # rest))) = Closed \<and>
      \<not> drawing (onResults s (Some (lm # rest))) \<and>
      path (onResults s (Some (lm # rest))) = path s) \<and>
   \<not> (isHandClosed lm = Inr True \<and> isOnlyOneFingerUp lm = Inr True) \<and>
   (lm_y (lm ! 8) \<ge> lm_y (lm ! 6) + 3 / 100 \<longrightarrow> isOnlyOneFingerUp lm \<noteq> Inr True)"
proof (intro conjI impI)
  assume "21 \<le> length lm \<and>
    lm_y (lm ! 8) > lm_y (lm ! 6) + 3 / 100 \<and> lm_y (lm ! 12) > lm_y (lm ! 10) + 3 / 100 \<and>
    lm_y (lm ! 16) > lm_y (lm ! 14) + 3 / 100 \<and> lm_y (lm ! 20) > lm_y (lm ! 18) + 3 / 100"
  then have closed: "isHandClosed lm = Inr True" by (simp only: closed_iff)
  then show "isHandClosed lm = Inr True" .
  show "isOnlyOneFingerUp lm = Inr False" using closed by (rule closed_not_oneFinger)
  show "gesture (onResults s (Some (lm # rest))) = Closed"
    and "\<not> drawing (onResults s (Some (lm # rest)))"
    and "path (onResults s (Some (lm # rest))) = path s"
    by (simp_all add: onResults_closed[OF closed])
next
  show "\<not> (isHandClosed lm = Inr True \<and> isOnlyOneFingerUp lm = Inr True)"
    using closed_not_oneFinger[of lm] by auto
next
  assume "lm_y (lm ! 8) \<ge> lm_y (lm ! 6) + 3 / 100"
  then show "isOnlyOneFingerUp lm \<noteq> Inr True"
    by (auto simp add: classifier_defs Let_def split: if_splits sum.splits)
qed

theorem closed_hand_is_closed_and_not_one_finger_witness:
  "21 \<le> length fistHand \<and>
   lm_y (fistHand ! 8) > lm_y (fistHand ! 6) + 3 / 100 \<and>
   lm_y (fistHand ! 12) > lm_y (fistHand ! 10) + 3 / 100 \<and>
   lm_y (fistHand ! 16) > lm_y (fistHand ! 14) + 3 / 100 \<and>
   lm_y (fistHand ! 20) > lm_y (fistHand ! 18) + 3 / 100 \<and>
   isHandClosed fistHand = Inr True \<and> isOnlyOneFingerUp fistHand = Inr False \<and>
   gesture (onResults draw_initial (Some [fistHand])) = Closed \<and>
   \<not> drawing (onResults draw_initial (Some [fistHand])) \<and>
   path (onResults draw_initial (Some [fistHand])) = []"
proof -
  have h: "21 \<le> length fistHand \<and>
    lm_y (fistHand ! 8) > lm_y (fistHand ! 6) + 3 / 100 \<and>
    lm_y (fistHand ! 12) > lm_y (fistHand ! 10) + 3 / 100 \<and>
    lm_y (fistHand ! 16) > lm_y (fistHand ! 14) + 3 / 100 \<and>
    lm_y (fistHand ! 20) > lm_y (fistHand ! 18) + 3 / 100"
    by (simp add: fistHand_def sampleHand_def)
  have p: "path draw_initial = []" by (simp add: draw_initial_def)
  show ?thesis
    using h p closed_hand_is_closed_and_not_one_finger [of fistHand draw_initial "[]"]
    by simp
qed

section \<open>Strokes on the drawing canvas\<close>

lemma strokePoint_Some:
  "strokePoint f = Some p \<Longrightarrow>
   \<exists>lm rest. f = Some (lm # rest) \<and> isOnlyOneFingerUp lm = Inr True \<and> p = tipPoint lm"
  by (auto simp: strokePoint_def split: option.splits list.splits if_splits)

lemma onResults_stroke:
  assumes "strokePoint f = Some p"
  shows "onResults s f =
     (if drawing s then s\<lparr>gesture := One_finger, path := path s @ [p]\<rparr>
      else s\<lparr>gesture := One_finger, path := [p], drawing := True\<rparr>)"
  using strokePoint_Some[OF assms] by (auto simp: onResults_oneFinger)

lemma onResults_raises: "frameRaises f \<Longrightarrow> onResults s f = s"
  by (auto simp: frameRaises_def onResults_def onResultsTry_def landmarkX_def landmarkY_def
        isl_def Let_def
      split: option.splits list.splits sum.splits if_splits)

lemma raises_not_stroke: "frameRaises f \<Longrightarrow> strokePoint f = None"
  by (auto simp: frameRaises_def strokePoint_def isl_def landmarkX_def
      split: option.splits list.splits if_splits
      dest: oneFinger_length oneFinger_not_closed)

lemma onResults_other:
  assumes "\<not> frameRaises f" "strokePoint f = None"
  shows "path (onResults s f) = path s \<and> \<not> drawing (onResults s f)"
  using assms
  by (auto simp: frameRaises_def strokePoint_def onResults_def onResultsTry_def landmarkX_def
        landmarkY_def isl_def Let_def
      split: option.splits list.splits sum.splits if_splits)

lemma run_oneFinger_frames:
  assumes "\<forall>f \<in> set fs. oneFingerUp f" "fs \<noteq> []"
  shows "path (foldl onResults s fs) =
           (if drawing s then path s else []) @ map (the \<circ> strokePoint) fs \<and>
         drawing (foldl onResults s fs)"
  using assms
proof (induction fs arbitrary: s rule: rev_induct)
  case Nil
  then show ?case by simp
next
  case (snoc f fs)
  from snoc.prems obtain p where p: "strokePoint f = Some p"
    by (auto simp: oneFingerUp_def)
  show ?case
  proof (cases "fs = []")
    case True
    then show ?thesis using p by (simp add: onResults_stroke)
  next
    case False
    with snoc have
      "path (foldl onResults s fs) =
         (if drawing s then path s else []) @ map (the \<circ> strokePoint) fs"
      "drawing (foldl onResults s fs)"
      by auto
    then show ?thesis using p by (simp add: onResults_stroke)
  qed
qed

lemma draw_run_Frames: "draw_run s (map Frame fs) = foldl onResults s fs"
  by (induction fs arbitrary: s) (simp_all add: draw_run_def)

lemma framesOf_append: "framesOf (evs @ evs') = framesOf evs @ framesOf evs'"
  by (induction evs rule: framesOf.induct) simp_all

lemma lastStroke_snoc_stroke:
  assumes "strokePoint f = Some p"
  shows "lastStroke (fs @ [f]) = (if strokeActive fs then lastStroke fs else []) @ [p]"
proof -
  have nr: "\<not> frameRaises f" using assms raises_not_stroke by fastforce
  have one: "oneFingerUp f" using assms by (simp add: oneFingerUp_def)
  show ?thesis
  proof (cases "rev (filter (Not \<circ> frameRaises) fs)")
    case Nil
    then show ?thesis using nr one assms by (simp add: lastStroke_def strokeActive_def)
  next
    case (Cons g gs)
    then show ?thesis using nr one assms by (simp add: lastStroke_def strokeActive_def)
  qed
qed

lemma lastStroke_snoc_other:
  assumes "\<not> frameRaises f" "strokePoint f = None"
  shows "lastStroke (fs @ [f]) = lastStroke fs" "\<not> strokeActive (fs @ [f])"
  using assms by (simp_all add: lastStroke_def strokeActive_def oneFingerUp_def)

lemma lastStroke_snoc_raises:
  assumes "frameRaises f"
  shows "lastStroke (fs @ [f]) = lastStroke fs" "strokeActive (fs @ [f]) = strokeActive fs"
  using assms by (simp_all add: lastStroke_def strokeActive_def)

lemma strokeActive_snoc_stroke: "strokePoint f = Some p \<Longrightarrow> strokeActive (fs @ [f])"
  using raises_not_stroke[of f] by (auto simp add: strokeActive_def oneFingerUp_def)

lemma handleCanvasClick_cases:
  "handleCanvasClick s a b c d = s \<or> handleCanvasClick s a b c d = s\<lparr>path := []\<rparr>"
  by (simp add: handleCanvasClick_def handleClear_def Let_def)

text \<open>
  The invariant of the canvas: the drawing flag says whether a stroke is in progress, and the
  path is the most recent stroke, or what a click on the clear button has left of it.
\<close>

lemma draw_run_invariant:
  "suffix (path (draw_run draw_initial evs)) (lastStroke (framesOf evs)) \<and>
   drawing (draw_run draw_initial evs) = strokeActive (framesOf evs) \<and>
   ((\<forall>e \<in> set evs. \<not> isClick e) \<longrightarrow>
      path (draw_run draw_initial evs) = lastStroke (framesOf evs))"
proof (induction evs rule: rev_induct)
  case Nil
  show ?case by (simp add: draw_run_def draw_initial_def lastStroke_def strokeActive_def)
next
  case (snoc e evs)
  let ?s = "draw_run draw_initial evs"
  have run: "draw_run draw_initial (evs @ [e]) = draw_step ?s e"
    by (simp add: draw_run_def)
  show ?case
  proof (cases e)
    case (Click a b c d)
    have fr: "framesOf (evs @ [e]) = framesOf evs"
      using Click by (simp add: framesOf_append)
    from handleCanvasClick_cases[of ?s a b c d] show ?thesis
      using snoc Click run fr by auto
  next
    case (Frame f)
    have fr: "framesOf (evs @ [e]) = framesOf evs @ [f]"
      using Frame by (simp add: framesOf_append)
    have st: "draw_step ?s e = onResults ?s f"
      using Frame by simp
    consider (raised) "frameRaises f"
      | (other) "\<not> frameRaises f" "strokePoint f = None"
      | (stroke) p where "strokePoint f = Some p"
      by (cases "strokePoint f") auto
    then show ?thesis
    proof cases
      case raised
      then show ?thesis using snoc run fr st Frame
        by (simp add: onResults_raises lastStroke_snoc_raises)
    next
      case other
      then show ?thesis using snoc run fr st Frame onResults_other[OF other, of ?s]
        by (simp add: lastStroke_snoc_other)
    next
      case stroke
      then show ?thesis using snoc run fr st Frame
        by (auto simp add: onResults_stroke lastStroke_snoc_stroke strokeActive_snoc_stroke)
    qed
  qed
qed

text \<open>The example frames.\<close>

lemma strokePoint_pointingHand: "strokePoint (Some [pointingHand]) = Some \<lparr>pt_x = 320, pt_y = 120\<rparr>"
  by (simp add: strokePoint_def pointingHand_oneFinger tipPoint_pointingHand)

lemma strokePoint_pointingHand2: "strokePoint (Some [pointingHand2]) = Some \<lparr>pt_x = 160, pt_y = 120\<rparr>"
  by (simp add: strokePoint_def pointingHand2_oneFinger tipPoint_pointingHand2)

lemma strokePoint_fistHand: "strokePoint (Some [fistHand]) = None"
  by (simp add: strokePoint_def closed_not_oneFinger[OF fistHand_closed])

lemma wellformed_not_raises: "21 \<le> length lm \<Longrightarrow> \<not> frameRaises (Some (lm # rest))"
  using classifier_total[of lm] by (auto simp add: frameRaises_def landmarkX_def)

lemma frameRaises_examples:
  "\<not> frameRaises (Some [pointingHand])" "\<not> frameRaises (Some [pointingHand2])"
  "\<not> frameRaises (Some [fistHand])"
  by (simp_all add: wellformed_not_raises pointingHand_def pointingHand2_def fistHand_def
        length_sampleHand)

section \<open>Properties of the drawing canvas\<close>

text \<open>
  C5. Starting from an empty path with drawing inactive, \<open>N\<close> consecutive one-finger-up
  frames yield a path of exactly \<open>N\<close> points, the fingertip points of the frames in arrival
  order: nothing is smoothed and nothing is dropped, equal consecutive points included.
  Frame by frame: a one-finger-up frame makes the path the singleton of its fingertip point
  when drawing was inactive, and appends its fingertip point otherwise.
\<close>

theorem one_finger_frames_give_path_in_order:
  assumes "path s = []" and "\<not> drawing s" and "\<forall>f \<in> set fs. oneFingerUp f"
  shows "path (draw_run s (map Frame fs)) = map (the \<circ> strokePoint) fs \<and>
         length (path (draw_run s (map Frame fs))) = length fs \<and>
         drawing (draw_run s (map Frame fs)) = (fs \<noteq> []) \<and>
         (\<forall>t f. oneFingerUp f \<longrightarrow>
            path (onResults t f) =
              (if drawing t then path t @ [the (strokePoint f)] else [the (strokePoint f)]))"
proof -
  have run: "path (draw_run s (map Frame fs)) = map (the \<circ> strokePoint) fs \<and>
         length (path (draw_run s (map Frame fs))) = length fs \<and>
         drawing (draw_run s (map Frame fs)) = (fs \<noteq> [])"
  proof (cases "fs = []")
    case True
    then show ?thesis using assms by (simp add: draw_run_def)
  next
    case False
    from run_oneFinger_frames[OF assms(3) False, of s] assms(2) False
    show ?thesis by (simp add: draw_run_Frames)
  qed
  have step: "path (onResults t f) =
      (if drawing t then path t @ [the (strokePoint f)] else [the (strokePoint f)])"
    if "oneFingerUp f" for t f
  proof -
    from that obtain p where "strokePoint f = Some p" by (auto simp: oneFingerUp_def)
    then show ?thesis by (simp add: onResults_stroke)
  qed
  show ?thesis using run step by blast
qed

theorem one_finger_frames_give_path_in_order_witness:
  "path draw_initial = [] \<and> \<not> drawing draw_initial \<and>
   oneFingerUp (Some [pointingHand]) \<and> oneFingerUp (Some [pointingHand2]) \<and>
   path (draw_run draw_initial
          (map Frame [Some [pointingHand], Some [pointingHand], Some [pointingHand2]])) =
     [\<lparr>pt_x = 320, pt_y = 120\<rparr>, \<lparr>pt_x = 320, pt_y = 120\<rparr>, \<lparr>pt_x = 160, pt_y = 120\<rparr>] \<and>
   drawing (draw_run draw_initial
          (map Frame [Some [pointingHand], Some [pointingHand], Some [pointingHand2]]))"
proof -
  have a: "path draw_initial = []" "\<not> drawing draw_initial"
    by (simp_all add: draw_initial_def)
  have b: "oneFingerUp (Some [pointingHand])" "oneFingerUp (Some [pointingHand2])"
    by (simp_all add: oneFingerUp_def strokePoint_pointingHand strokePoint_pointingHand2)
  have c: "\<forall>f \<in> set [Some [pointingHand], Some [pointingHand], Some [pointingHand2]]. oneFingerUp f"
    using b by simp
  show ?thesis
    using a b one_finger_frames_give_path_in_order [OF a c]
    by (simp add: strokePoint_pointingHand strokePoint_pointingHand2)
qed

text \<open>
  C10. A one-finger-up frame that arrives while drawing is inactive replaces the path by
  the singleton of its fingertip point. Hence, in every run of the canvas from its initial
  state, the path holds only points of the most recent stroke: it is a final segment of that
  stroke (what a click on the clear button has left of it), and it is that stroke when no
  click occurred. An earlier stroke is gone as soon as the next one begins.
\<close>

theorem path_holds_only_the_latest_stroke:
  "(oneFingerUp f \<and> \<not> drawing s \<longrightarrow>
      path (onResults s f) = [the (strokePoint f)] \<and> drawing (onResults s f)) \<and>
   suffix (path (draw_run draw_initial evs)) (lastStroke (framesOf evs)) \<and>
   ((\<forall>e \<in> set evs. \<not> isClick e) \<longrightarrow>
      path (draw_run draw_initial evs) = lastStroke (framesOf evs))"
proof (intro conjI impI)
  assume "oneFingerUp f \<and> \<not> drawing s"
  then obtain p where "strokePoint f = Some p" "\<not> drawing s"
    by (auto simp: oneFingerUp_def)
  then show "path (onResults s f) = [the (strokePoint f)]" and "drawing (onResults s f)"
    by (simp_all add: onResults_stroke)
next
  show "suffix (path (draw_run draw_initial evs)) (lastStroke (framesOf evs))"
    using draw_run_invariant[of evs] by simp
next
  assume "\<forall>e \<in> set evs. \<not> isClick e"
  then show "path (draw_run draw_initial evs) = lastStroke (framesOf evs)"
    using draw_run_invariant[of evs] by simp
qed

theorem path_holds_only_the_latest_stroke_witness:
  "oneFingerUp (Some [pointingHand2]) \<and>
   \<not> drawing (draw_initial\<lparr>path := [\<lparr>pt_x = 320, pt_y = 120\<rparr>, \<lparr>pt_x = 320, pt_y = 120\<rparr>]\<rparr>) \<and>
   path (onResults (draw_initial\<lparr>path := [\<lparr>pt_x = 320, pt_y = 120\<rparr>, \<lparr>pt_x = 320, pt_y = 120\<rparr>]\<rparr>)
           (Some [pointingHand2])) = [\<lparr>pt_x = 160, pt_y = 120\<rparr>] \<and>
   lastStroke [Some [pointingHand], Some [pointingHand], Some [fistHand], Some [pointingHand2]] =
     [\<lparr>pt_x = 160, pt_y = 120\<rparr>] \<and>
   path (draw_run draw_initial
          [Frame (Some [pointingHand]), Frame (Some [pointingHand]), Frame (Some [fistHand]),
           Frame (Some [pointingHand2])]) = [\<lparr>pt_x = 160, pt_y = 120\<rparr>]"
proof -
  have a: "oneFingerUp (Some [pointingHand2])" "oneFingerUp (Some [pointingHand])"
      "\<not> oneFingerUp (Some [fistHand])"
    by (simp_all add: oneFingerUp_def strokePoint_pointingHand strokePoint_pointingHand2
          strokePoint_fistHand)
  have b: "\<not> drawing (draw_initial\<lparr>path := [\<lparr>pt_x = 320, pt_y = 120\<rparr>, \<lparr>pt_x = 320, pt_y = 120\<rparr>]\<rparr>)"
    by (simp add: draw_initial_def)
  have l: "lastStroke [Some [pointingHand], Some [pointingHand], Some [fistHand], Some [pointingHand2]] =
     [\<lparr>pt_x = 160, pt_y = 120\<rparr>]"
    using a by (simp add: lastStroke_def frameRaises_examples strokePoint_pointingHand2)
  show ?thesis
    using a b l
      path_holds_only_the_latest_stroke
        [of "Some [pointingHand2]"
            "draw_initial\<lparr>path := [\<lparr>pt_x = 320, pt_y = 120\<rparr>, \<lparr>pt_x = 320, pt_y = 120\<rparr>]\<rparr>"
            "[Frame (Some [pointingHand]), Frame (Some [pointingHand]), Frame (Some [fistHand]),
              Frame (Some [pointingHand2])]"]
    by (simp add: strokePoint_pointingHand2)
qed

section \<open>The clear action\<close>

lemma buttonHand_tip:
  "length buttonHand = 21" "lm_x (buttonHand ! 8) = 7 / 8" "lm_y (buttonHand ! 8) = 15 / 16"
  by (simp_all add: buttonHand_def sampleHand_def)

lemma isFingerInButton_example: "isFingerInButton 560 450"
  by (simp add: isFingerInButton_def BUTTON_X_def BUTTON_Y_def BUTTON_WIDTH_def BUTTON_HEIGHT_def
      CANVAS_WIDTH_def CANVAS_HEIGHT_def)

text \<open>
  C9. The clear action is \<^verbatim>\<open>handleClear\<close>. It yields an empty path from every state, whatever
  the path, the drawing flag and the gesture are, and changes nothing else. It is reached
  by a pointer click that the hit test places inside the clear-button rectangle, and by the
  finger-position test of the earlier canvas when the fingertip is inside that rectangle;
  through either the path it yields is empty. (After the finger-position test the same frame
  goes on to its draw step, which stores the current fingertip: the frame ends with the
  path holding that one point and none of the points it held before.)
\<close>

theorem clear_action_yields_empty_path:
  "path (handleClear s) = [] \<and> drawing (handleClear s) = drawing s \<and>
   gesture (handleClear s) = gesture s \<and>
   (isFingerInButton (clientX - rectLeft) (clientY - rectTop) \<longrightarrow>
      handleCanvasClick s clientX clientY rectLeft rectTop = handleClear s \<and>
      path (handleCanvasClick s clientX clientY rectLeft rectTop) = []) \<and>
   (isFingerInButton x y \<longrightarrow>
      path (fingerClear s x y) = [] \<and> drawing (fingerClear s x y) = drawing s \<and>
      gesture (fingerClear s x y) = gesture s) \<and>
   (8 < length lm \<and>
    isFingerInButton (lm_x (lm ! 8) * CANVAS_WIDTH) (lm_y (lm ! 8) * CANVAS_HEIGHT) \<longrightarrow>
      path (fingerClear s (lm_x (lm ! 8) * CANVAS_WIDTH) (lm_y (lm ! 8) * CANVAS_HEIGHT)) = [] \<and>
      onResults_v1 s (Some (lm # rest)) =
        drawStep_v1 (fingerClear s (lm_x (lm ! 8) * CANVAS_WIDTH) (lm_y (lm ! 8) * CANVAS_HEIGHT))
          (lm_x (lm ! 8) * CANVAS_WIDTH) (lm_y (lm ! 8) * CANVAS_HEIGHT) \<and>
      path (onResults_v1 s (Some (lm # rest))) = [tipPoint lm])"
  by (simp add: handleClear_def handleCanvasClick_def fingerClear_def drawStep_v1_def
      onResults_v1_def onResultsTry_v1_def landmarkX_def landmarkY_def tipPoint_def Let_def)

theorem clear_action_yields_empty_path_witness:
  "path (draw_initial\<lparr>path := [\<lparr>pt_x = 10, pt_y = 10\<rparr>, \<lparr>pt_x = 20, pt_y = 20\<rparr>],
                       drawing := True, gesture := One_finger\<rparr>) \<noteq> [] \<and>
   path (handleClear (draw_initial\<lparr>path := [\<lparr>pt_x = 10, pt_y = 10\<rparr>, \<lparr>pt_x = 20, pt_y = 20\<rparr>],
                       drawing := True, gesture := One_finger\<rparr>)) = [] \<and>
   isFingerInButton (570 - 10) (460 - 10) \<and>
   path (handleCanvasClick
          (draw_initial\<lparr>path := [\<lparr>pt_x = 10, pt_y = 10\<rparr>, \<lparr>pt_x = 20, pt_y = 20\<rparr>],
                       drawing := True, gesture := One_finger\<rparr>)
          570 460 10 10) = [] \<and>
   isFingerInButton 560 450 \<and>
   path (fingerClear
          (draw_initial\<lparr>path := [\<lparr>pt_x = 10, pt_y = 10\<rparr>, \<lparr>pt_x = 20, pt_y = 20\<rparr>],
                       drawing := True, gesture := One_finger\<rparr>)
          560 450) = [] \<and>
   8 < length buttonHand \<and>
   lm_x (buttonHand ! 8) * CANVAS_WIDTH = 560 \<and> lm_y (buttonHand ! 8) * CANVAS_HEIGHT = 450 \<and>
   path (onResults_v1
          (draw_initial\<lparr>path := [\<lparr>pt_x = 10, pt_y = 10\<rparr>, \<lparr>pt_x = 20, pt_y = 20\<rparr>],
                       drawing := True, gesture := One_finger\<rparr>)
          (Some [buttonHand])) = [\<lparr>pt_x = 560, pt_y = 450\<rparr>]"
proof -
  have a: "isFingerInButton (570 - 10) (460 - 10)" "isFingerInButton 560 450"
    using isFingerInButton_example by simp_all
  have b: "8 < length buttonHand" by (simp add: buttonHand_tip)
  have c: "lm_x (buttonHand ! 8) * CANVAS_WIDTH = 560" "lm_y (buttonHand ! 8) * CANVAS_HEIGHT = 450"
    by (simp_all add: buttonHand_tip CANVAS_WIDTH_def CANVAS_HEIGHT_def)
  have d: "tipPoint buttonHand = \<lparr>pt_x = 560, pt_y = 450\<rparr>"
    by (simp add: tipPoint_def buttonHand_tip CANVAS_WIDTH_def CANVAS_HEIGHT_def)
  show ?thesis
    using a b c d
      clear_action_yields_empty_path
        [of "draw_initial\<lparr>path := [\<lparr>pt_x = 10, pt_y = 10\<rparr>, \<lparr>pt_x = 20, pt_y = 20\<rparr>],
                          drawing := True, gesture := One_finger\<rparr>"
            570 10 460 10 560 450 buttonHand "[]"]
    by auto
qed

section \<open>The hit test\<close>

lemma foldl_hitBird:
  "foldl (hitBird x y now) s bs =
     s\<lparr>birds := birds s @ map (\<lambda>b. if isHit x y b then b\<lparr>bird_hit := True\<rparr> else b) bs,
       score := score s + int (length (filter (isHit x y) bs)),
       pop := pop s @ map (\<lambda>b. \<lparr>pop_x = bird_x b, pop_y = bird_y b, pop_value = 1, pop_time = now\<rparr>)
                        (filter (isHit x y) bs)\<rparr>"
  by (induction bs arbitrary: s) (simp_all add: hitBird_def)

lemma hitBirds_eq:
  "hitBirds x y now s =
     s\<lparr>birds := map (\<lambda>b. if isHit x y b then b\<lparr>bird_hit := True\<rparr> else b) (birds s),
       score := score s + int (length (filter (isHit x y) (birds s))),
       pop := pop s @ map (\<lambda>b. \<lparr>pop_x = bird_x b, pop_y = bird_y b, pop_value = 1, pop_time = now\<rparr>)
                        (filter (isHit x y) (birds s))\<rparr>"
  by (simp add: hitBirds_def foldl_hitBird)

lemma onResults_game_oneFinger:
  assumes "started s" "\<not> gameOver s" "isOnlyOneFingerUp lm = Inr True"
  shows "onResults_game w h now s (Some (lm # rest)) =
     (hitBirds ((1 - lm_x (lm ! 8)) * w) (lm_y (lm ! 8) * h) now
        (s\<lparr>lastHandLandmarks := Some lm\<rparr>), None)"
  using assms oneFinger_length[OF assms(3)]
  by (simp add: onResults_game_def landmarkX_def landmarkY_def Let_def)


text \<open>The example: the fingertip at \<open>(105, 103)\<close> against the four birds of the sample game.\<close>

lemma pointingHand_tip: "lm_x (pointingHand ! 8) = 1 / 2" "lm_y (pointingHand ! 8) = 1 / 4"
  by (simp_all add: pointingHand_def sampleHand_def)

lemma sample_dists:
  "dist 105 103 100 100 < 46" "dist 105 103 120 110 < 46" "\<not> dist 105 103 200 400 < 46"
  by (simp_all add: dist_def real_less_lsqrt not_less real_le_rsqrt)


lemma sampleGameAfterHit_eq:
  "sampleGameAfterHit =
     \<lparr>score = 5, timer = 42, gameOver = False, started = True,
      pop = [\<lparr>pop_x = 100, pop_y = 100, pop_value = 1, pop_time = 1000\<rparr>,
             \<lparr>pop_x = 120, pop_y = 110, pop_value = 1, pop_time = 1000\<rparr>],
      birds = [sampleBird 100 100 True, sampleBird 120 110 True,
               sampleBird 105 103 True, sampleBird 200 400 False],
      lastBirdSpawn = 900, lastHandLandmarks = Some pointingHand\<rparr>"
proof -
  have "started sampleGame" "\<not> gameOver sampleGame" by (simp_all add: sampleGame_def)
  from onResults_game_oneFinger[OF this pointingHand_oneFinger, of 210 412 1000 "[]"]
  show ?thesis
    by (simp add: sampleGameAfterHit_def hitBirds_eq isHit_def pointingHand_tip sampleGame_def
          sampleBird_def sample_dists)
qed

section \<open>The game tick\<close>

lemma moveAndCull_append: "moveAndCull w h (xs @ ys) = moveAndCull w h xs @ moveAndCull w h ys"
  by (simp add: moveAndCull_def)

lemma moveAndCull_Nil: "moveAndCull w h [] = []"
  by (simp add: moveAndCull_def)

lemma funpow_moveAndCull_Nil: "(moveAndCull w h ^^ n) [] = []"
  by (induction n) (simp_all add: moveAndCull_Nil)

lemma moveBird_funpow:
  "bird_x ((moveBird ^^ n) b) = bird_x b + real n * bird_vx b \<and>
   bird_vx ((moveBird ^^ n) b) = bird_vx b"
  by (induction n) (simp_all add: moveBird_def algebra_simps)

lemma moveBird_funpow_hit: "bird_hit ((moveBird ^^ n) b) = bird_hit b"
  by (induction n) (simp_all add: moveBird_def)

lemma funpow_moveAndCull_append:
  "(moveAndCull w h ^^ n) (xs @ ys) = (moveAndCull w h ^^ n) xs @ (moveAndCull w h ^^ n) ys"
  by (induction n arbitrary: xs ys) (simp_all add: moveAndCull_append funpow_swap1)

text \<open>
  The fate of one bird: it stays in the list, moved once per tick, as long as it passes the
  test of the tick after every move, and is gone from the first tick at which it fails.
\<close>

lemma funpow_moveAndCull_one:
  "(moveAndCull w h ^^ n) [b] =
     (if \<forall>j. 0 < j \<and> j \<le> n \<longrightarrow> keepBird w h ((moveBird ^^ j) b)
      then [(moveBird ^^ n) b] else [])"
proof (induction n)
  case 0
  show ?case by simp
next
  case (Suc n)
  show ?case
  proof (cases "\<forall>j. 0 < j \<and> j \<le> n \<longrightarrow> keepBird w h ((moveBird ^^ j) b)")
    case True
    then have "(\<forall>j. 0 < j \<and> j \<le> Suc n \<longrightarrow> keepBird w h ((moveBird ^^ j) b)) \<longleftrightarrow>
        keepBird w h ((moveBird ^^ Suc n) b)"
      by (auto simp add: le_Suc_eq)
    then show ?thesis using Suc True by (simp add: moveAndCull_def)
  next
    case False
    then have "\<not> (\<forall>j. 0 < j \<and> j \<le> Suc n \<longrightarrow> keepBird w h ((moveBird ^^ j) b))"
      by (auto simp add: le_Suc_eq)
    then show ?thesis using Suc False by (simp add: moveAndCull_Nil)
  qed
qed

text \<open>
  A bird from \<^verbatim>\<open>randomBird\<close> crosses the canvas at 4.5 per tick: after \<open>j\<close> ticks its \<open>x\<close> is
  strictly inside \<open>(-28, width + 28)\<close> exactly when \<open>0 < j < \<lceil>(width + 56) / 4.5\<rceil>\<close>.
\<close>

lemma randomBird_x_inside:
  assumes "0 \<le> w"
  shows "(- 28 < bird_x ((moveBird ^^ j) (randomBird w h r1 r2 r3)) \<and>
          bird_x ((moveBird ^^ j) (randomBird w h r1 r2 r3)) < w + 28) \<longleftrightarrow>
         (0 < j \<and> j < nat \<lceil>(w + 2 * 28) / (9 / 2)\<rceil>)"
proof -
  have c: "j < nat \<lceil>(w + 2 * 28) / (9 / 2)\<rceil> \<longleftrightarrow> real j * (9 / 2) < w + 56"
  proof -
    have "j < nat \<lceil>(w + 2 * 28) / (9 / 2)\<rceil> \<longleftrightarrow> int j < \<lceil>(w + 2 * 28) / (9 / 2)\<rceil>"
      by linarith
    also have "\<dots> \<longleftrightarrow> real_of_int (int j) < (w + 2 * 28) / (9 / 2)"
      by (rule less_ceiling_iff)
    also have "\<dots> \<longleftrightarrow> real j * (9 / 2) < w + 56"
      by (simp add: field_simps)
    finally show ?thesis .
  qed
  have p: "0 < j \<longleftrightarrow> 0 < real j * (9 / 2)" by simp
  show ?thesis
    unfolding c p using moveBird_funpow[of j "randomBird w h r1 r2 r3"]
    by (auto simp add: randomBird_def BIRD_RADIUS_def BIRD_SPEED_def Let_def)
qed

text \<open>
  A tick treats the birds one by one, so a part of the list that dies out within the run
  leaves no trace in the state.
\<close>

lemma gameTick_split:
  assumes "started s" "\<not> gameOver s"
  shows "\<exists>t post'. started t \<and> \<not> gameOver t \<and>
           (\<forall>pre mid. gameTick w h now r1 r2 r3 (s\<lparr>birds := pre @ mid @ post\<rparr>) =
              t\<lparr>birds := moveAndCull w h pre @ moveAndCull w h mid @ post'\<rparr>)"
proof (cases "now - lastBirdSpawn s > BIRD_SPAWN_INTERVAL")
  case True
  show ?thesis
    by (rule exI[of _ "s\<lparr>lastBirdSpawn := now\<rparr>"],
        rule exI[of _ "moveAndCull w h post @ [randomBird w h r1 r2 r3]"])
       (use assms True in \<open>simp add: gameTick_def Let_def moveAndCull_append\<close>)
next
  case False
  show ?thesis
    by (rule exI[of _ "s"], rule exI[of _ "moveAndCull w h post"])
       (use assms False in \<open>simp add: gameTick_def Let_def moveAndCull_append\<close>)
qed

lemma gameTicks_forget:
  assumes "started s" "\<not> gameOver s" "(moveAndCull w h ^^ length inputs) mid = []"
  shows "gameTicks w h (s\<lparr>birds := pre @ mid @ post\<rparr>) inputs =
         gameTicks w h (s\<lparr>birds := pre @ post\<rparr>) inputs"
  using assms
proof (induction inputs arbitrary: s pre mid post)
  case Nil
  then show ?case by simp
next
  case (Cons i inputs)
  obtain now r1 r2 r3 where i: "i = (now, r1, r2, r3)" by (cases i) auto
  from gameTick_split[OF Cons.prems(1,2), of w h now r1 r2 r3 post]
  obtain t post' where t: "started t" "\<not> gameOver t"
    and step: "\<And>pre mid. gameTick w h now r1 r2 r3 (s\<lparr>birds := pre @ mid @ post\<rparr>) =
              t\<lparr>birds := moveAndCull w h pre @ moveAndCull w h mid @ post'\<rparr>"
    by blast
  have gone: "(moveAndCull w h ^^ length inputs) (moveAndCull w h mid) = []"
    using Cons.prems(3) by (simp add: funpow_swap1)
  have "gameTick w h now r1 r2 r3 (s\<lparr>birds := pre @ post\<rparr>) =
          t\<lparr>birds := moveAndCull w h pre @ post'\<rparr>"
    using step[of pre "[]"] by (simp add: moveAndCull_Nil)
  moreover have
    "gameTicks w h (t\<lparr>birds := moveAndCull w h pre @ moveAndCull w h mid @ post'\<rparr>) inputs =
     gameTicks w h (t\<lparr>birds := moveAndCull w h pre @ post'\<rparr>) inputs"
    using Cons.IH[OF t gone] .
  ultimately show ?case using i step[of pre mid] by simp
qed

text \<open>
  The birds after a run of ticks: the birds of the start, moved and culled once per tick,
  followed by what the run leaves of the birds it spawned.
\<close>

lemma gameTick_birds_split:
  assumes "started s" "\<not> gameOver s"
  shows "\<exists>t sp. started t \<and> \<not> gameOver t \<and>
           (\<forall>bs. gameTick w h now r1 r2 r3 (s\<lparr>birds := bs\<rparr>) =
              t\<lparr>birds := moveAndCull w h bs @ sp\<rparr>)"
proof (cases "now - lastBirdSpawn s > BIRD_SPAWN_INTERVAL")
  case True
  show ?thesis
    by (rule exI[of _ "s\<lparr>lastBirdSpawn := now\<rparr>"], rule exI[of _ "[randomBird w h r1 r2 r3]"])
       (use assms True in \<open>simp add: gameTick_def Let_def\<close>)
next
  case False
  show ?thesis
    by (rule exI[of _ "s"], rule exI[of _ "[]"])
       (use assms False in \<open>simp add: gameTick_def Let_def\<close>)
qed

lemma gameTicks_birds:
  assumes "started s" "\<not> gameOver s"
  shows "birds (gameTicks w h (s\<lparr>birds := bs\<rparr>) inputs) =
           (moveAndCull w h ^^ length inputs) bs @ birds (gameTicks w h (s\<lparr>birds := []\<rparr>) inputs)"
  using assms
proof (induction inputs arbitrary: s bs)
  case Nil
  then show ?case by simp
next
  case (Cons i inputs)
  obtain now r1 r2 r3 where i: "i = (now, r1, r2, r3)" by (cases i) auto
  from gameTick_birds_split[OF Cons.prems, of w h now r1 r2 r3]
  obtain t sp where t: "started t" "\<not> gameOver t"
    and step: "\<And>bs. gameTick w h now r1 r2 r3 (s\<lparr>birds := bs\<rparr>) =
              t\<lparr>birds := moveAndCull w h bs @ sp\<rparr>"
    by blast
  have "birds (gameTicks w h (s\<lparr>birds := bs\<rparr>) (i # inputs)) =
        birds (gameTicks w h (t\<lparr>birds := moveAndCull w h bs @ sp\<rparr>) inputs)"
    by (simp add: i step)
  also have "\<dots> = (moveAndCull w h ^^ length inputs) (moveAndCull w h bs @ sp) @
        birds (gameTicks w h (t\<lparr>birds := []\<rparr>) inputs)"
    by (rule Cons.IH[OF t])
  also have "\<dots> = (moveAndCull w h ^^ length (i # inputs)) bs @
        ((moveAndCull w h ^^ length inputs) sp @ birds (gameTicks w h (t\<lparr>birds := []\<rparr>) inputs))"
    by (simp add: funpow_moveAndCull_append funpow_swap1)
  also have "(moveAndCull w h ^^ length inputs) sp @ birds (gameTicks w h (t\<lparr>birds := []\<rparr>) inputs) =
        birds (gameTicks w h (t\<lparr>birds := sp\<rparr>) inputs)"
    by (rule Cons.IH[OF t, symmetric])
  also have "birds (gameTicks w h (t\<lparr>birds := sp\<rparr>) inputs) =
        birds (gameTicks w h (s\<lparr>birds := []\<rparr>) (i # inputs))"
    using step[of "[]"] by (simp add: i moveAndCull_Nil)
  finally show ?case .
qed

text \<open>The tick after a hit, and the pops of a hit under the filter of the animation frame.\<close>

lemma moveAndCull_after_hit:
  "moveAndCull w h (map (\<lambda>b. if Q b then b\<lparr>bird_hit := True\<rparr> else b) bs) =
   moveAndCull w h (filter (\<lambda>b. \<not> Q b) bs)"
  by (induction bs) (simp_all add: moveAndCull_def keepBird_def moveBird_def)

lemma moveAndCull_explicit:
  "moveAndCull w h bs =
     filter (\<lambda>b. - 28 < bird_x b \<and> bird_x b < w + 28 \<and>
                  - 28 < bird_y b \<and> bird_y b < h + 28 \<and> \<not> bird_hit b)
       (map (\<lambda>b. b\<lparr>bird_x := bird_x b + bird_vx b, bird_y := bird_y b + bird_vy b\<rparr>) bs)"
  by (simp add: moveAndCull_def keepBird_def[abs_def] moveBird_def[abs_def] BIRD_RADIUS_def)

lemma gameTick_birds_eq:
  "started s \<Longrightarrow> \<not> gameOver s \<Longrightarrow>
   birds (gameTick w h now r1 r2 r3 s) =
     moveAndCull w h (birds s) @
     (if now - lastBirdSpawn s > 1200 then [randomBird w h r1 r2 r3] else [])"
  by (simp add: gameTick_def Let_def BIRD_SPAWN_INTERVAL_def)

lemma filter_new_pops:
  "filter (\<lambda>p. now - pop_time p < 700)
     (map (\<lambda>b. \<lparr>pop_x = bird_x b, pop_y = bird_y b, pop_value = 1, pop_time = t\<rparr>) bs) =
   (if now - t < 700
    then map (\<lambda>b. \<lparr>pop_x = bird_x b, pop_y = bird_y b, pop_value = 1, pop_time = t\<rparr>) bs else [])"
  by (induction bs) simp_all

text \<open>
  C4, as stated, fails: the birds hit at time 1000 are gone after the tick at time 1030,
  in bounds as they are, while the pops made for them are still shown by the animation frame
  at that time (their age is 30 ms, the display lasts 700 ms).
\<close>

theorem hit_bird_removed_while_pop_is_shown:
  "birds sampleGameAfterHit =
     [sampleBird 100 100 True, sampleBird 120 110 True,
      sampleBird 105 103 True, sampleBird 200 400 False] \<and>
   pop (animate 1030 sampleGameAfterHit) =
     [\<lparr>pop_x = 100, pop_y = 100, pop_value = 1, pop_time = 1000\<rparr>,
      \<lparr>pop_x = 120, pop_y = 110, pop_value = 1, pop_time = 1000\<rparr>] \<and>
   birds (gameTick 210 412 1030 0 0 0 sampleGameAfterHit) = [sampleBird (409 / 2) 400 False]"
  by (simp add: sampleGameAfterHit_eq animate_def gameTick_def moveAndCull_def moveBird_def
        keepBird_def sampleBird_def BIRD_RADIUS_def BIRD_SPAWN_INTERVAL_def)

text \<open>
  C4, amended. A game tick (while started and not over) removes a bird exactly when, after
  its move, it lies outside the open bounds \<open>(-28, width + 28) \<times> (-28, height + 28)\<close> or is
  marked hit: the list after the tick is the moved birds that are inside and not hit, in
  order, followed by the new bird if one is spawned. So the birds that a frame has just
  marked hit are gone after the next tick, whenever it fires and whatever the age of their
  pops: of the birds before the hit, the tick keeps those out of range of the fingertip that
  pass the test. The pops are removed on their own, by the animation frame, exactly when
  their age is 700 ms or more: those of a hit at time \<open>hitTime\<close> are shown at time \<open>now\<close> exactly
  when \<open>now - hitTime < 700\<close>. The tick touches neither pops nor score, the animation frame
  does not touch the birds.
\<close>

theorem tick_removes_birds_out_of_bounds_or_hit:
  assumes "started s" and "\<not> gameOver s"
  shows
    "birds (gameTick width height now r1 r2 r3 s) =
       filter (\<lambda>b. - 28 < bird_x b \<and> bird_x b < width + 28 \<and>
                    - 28 < bird_y b \<and> bird_y b < height + 28 \<and> \<not> bird_hit b)
         (map (\<lambda>b. b\<lparr>bird_x := bird_x b + bird_vx b, bird_y := bird_y b + bird_vy b\<rparr>) (birds s))
       @ (if now - lastBirdSpawn s > 1200 then [randomBird width height r1 r2 r3] else []) \<and>
     pop (gameTick width height now r1 r2 r3 s) = pop s \<and>
     score (gameTick width height now r1 r2 r3 s) = score s \<and>
     pop (animate now s) = filter (\<lambda>p. now - pop_time p < 700) (pop s) \<and>
     birds (animate now s) = birds s \<and>
     (isOnlyOneFingerUp lm = Inr True \<longrightarrow>
        (let x = (1 - lm_x (lm ! 8)) * width;
             y = lm_y (lm ! 8) * height;
             inRange = (\<lambda>b. \<not> bird_hit b \<and> dist x y (bird_x b) (bird_y b) < bird_radius b + 18);
             s' = fst (onResults_game width height hitTime s (Some (lm # rest)))
         in birds (gameTick width height now r1 r2 r3 s') =
              filter (\<lambda>b. - 28 < bird_x b \<and> bird_x b < width + 28 \<and>
                           - 28 < bird_y b \<and> bird_y b < height + 28 \<and> \<not> bird_hit b)
                (map (\<lambda>b. b\<lparr>bird_x := bird_x b + bird_vx b, bird_y := bird_y b + bird_vy b\<rparr>)
                   (filter (\<lambda>b. \<not> inRange b) (birds s)))
              @ (if now - lastBirdSpawn s > 1200 then [randomBird width height r1 r2 r3] else []) \<and>
            pop (animate now s') =
              filter (\<lambda>p. now - pop_time p < 700) (pop s) @
              (if now - hitTime < 700
               then map (\<lambda>b. \<lparr>pop_x = bird_x b, pop_y = bird_y b, pop_value = 1, pop_time = hitTime\<rparr>)
                      (filter inRange (birds s))
               else [])))"
proof -
  have tick: "birds (gameTick width height now r1 r2 r3 s) =
       filter (\<lambda>b. - 28 < bird_x b \<and> bird_x b < width + 28 \<and>
                    - 28 < bird_y b \<and> bird_y b < height + 28 \<and> \<not> bird_hit b)
         (map (\<lambda>b. b\<lparr>bird_x := bird_x b + bird_vx b, bird_y := bird_y b + bird_vy b\<rparr>) (birds s))
       @ (if now - lastBirdSpawn s > 1200 then [randomBird width height r1 r2 r3] else [])"
    "pop (gameTick width height now r1 r2 r3 s) = pop s"
    "score (gameTick width height now r1 r2 r3 s) = score s"
    using assms
    by (simp_all add: gameTick_def Let_def moveAndCull_def keepBird_def[abs_def] moveBird_def[abs_def]
          BIRD_RADIUS_def BIRD_SPAWN_INTERVAL_def)
  have anim: "pop (animate now s) = filter (\<lambda>p. now - pop_time p < 700) (pop s)"
    "birds (animate now s) = birds s"
    using assms by (simp_all add: animate_def)
  have hit: "(let x = (1 - lm_x (lm ! 8)) * width;
             y = lm_y (lm ! 8) * height;
             inRange = (\<lambda>b. \<not> bird_hit b \<and> dist x y (bird_x b) (bird_y b) < bird_radius b + 18);
             s' = fst (onResults_game width height hitTime s (Some (lm # rest)))
         in birds (gameTick width height now r1 r2 r3 s') =
              filter (\<lambda>b. - 28 < bird_x b \<and> bird_x b < width + 28 \<and>
                           - 28 < bird_y b \<and> bird_y b < height + 28 \<and> \<not> bird_hit b)
                (map (\<lambda>b. b\<lparr>bird_x := bird_x b + bird_vx b, bird_y := bird_y b + bird_vy b\<rparr>)
                   (filter (\<lambda>b. \<not> inRange b) (birds s)))
              @ (if now - lastBirdSpawn s > 1200 then [randomBird width height r1 r2 r3] else []) \<and>
            pop (animate now s') =
              filter (\<lambda>p. now - pop_time p < 700) (pop s) @
              (if now - hitTime < 700
               then map (\<lambda>b. \<lparr>pop_x = bird_x b, pop_y = bird_y b, pop_value = 1, pop_time = hitTime\<rparr>)
                      (filter inRange (birds s))
               else []))"
    if one: "isOnlyOneFingerUp lm = Inr True"
  proof -
    define inRange :: "bird \<Rightarrow> bool" where "inRange =
      (\<lambda>b. \<not> bird_hit b \<and>
           dist ((1 - lm_x (lm ! 8)) * width) (lm_y (lm ! 8) * height) (bird_x b) (bird_y b)
             < bird_radius b + 18)"
    define s' where "s' = fst (onResults_game width height hitTime s (Some (lm # rest)))"
    have s': "started s'" "\<not> gameOver s'" "lastBirdSpawn s' = lastBirdSpawn s"
      "birds s' = map (\<lambda>b. if inRange b then b\<lparr>bird_hit := True\<rparr> else b) (birds s)"
      "pop s' = pop s @
         map (\<lambda>b. \<lparr>pop_x = bird_x b, pop_y = bird_y b, pop_value = 1, pop_time = hitTime\<rparr>)
           (filter inRange (birds s))"
      using assms
      by (simp_all add: s'_def inRange_def onResults_game_oneFinger[OF assms one] hitBirds_eq
            isHit_def[abs_def])
    have "birds (gameTick width height now r1 r2 r3 s') =
        moveAndCull width height (filter (\<lambda>b. \<not> inRange b) (birds s)) @
        (if now - lastBirdSpawn s > 1200 then [randomBird width height r1 r2 r3] else [])"
      by (simp only: gameTick_birds_eq[OF s'(1,2)] s'(3,4) moveAndCull_after_hit)
    moreover have "pop (animate now s') =
        filter (\<lambda>p. now - pop_time p < 700) (pop s) @
        (if now - hitTime < 700
         then map (\<lambda>b. \<lparr>pop_x = bird_x b, pop_y = bird_y b, pop_value = 1, pop_time = hitTime\<rparr>)
                (filter inRange (birds s))
         else [])"
      using s'(1,2) by (simp add: animate_def s'(5) filter_new_pops)
    ultimately show ?thesis
      unfolding Let_def moveAndCull_explicit inRange_def s'_def by (rule conjI)
  qed
  show ?thesis using tick anim hit by blast
qed

theorem tick_removes_birds_out_of_bounds_or_hit_witness:
  "started sampleGame \<and> \<not> gameOver sampleGame \<and> isOnlyOneFingerUp pointingHand = Inr True \<and>
   birds sampleGameAfterHit =
     [sampleBird 100 100 True, sampleBird 120 110 True,
      sampleBird 105 103 True, sampleBird 200 400 False] \<and>
   birds (gameTick 210 412 1030 (3 / 4) (1 / 2) (1 / 2) sampleGameAfterHit) =
     [sampleBird (409 / 2) 400 False] \<and>
   pop (animate 1030 sampleGameAfterHit) =
     [\<lparr>pop_x = 100, pop_y = 100, pop_value = 1, pop_time = 1000\<rparr>,
      \<lparr>pop_x = 120, pop_y = 110, pop_value = 1, pop_time = 1000\<rparr>] \<and>
   pop (animate 1700 sampleGameAfterHit) = [] \<and>
   birds (animate 1700 sampleGame) = birds sampleGame \<and>
   birds (gameTick 210 412 2101 (3 / 4) (1 / 2) (1 / 2) sampleGame) =
     [sampleBird (209 / 2) 100 False, sampleBird (249 / 2) 110 False,
      sampleBird (409 / 2) 400 False, randomBird 210 412 (3 / 4) (1 / 2) (1 / 2)]"
proof -
  have a: "started sampleGame" "\<not> gameOver sampleGame" by (simp_all add: sampleGame_def)
  have b: "birds sampleGame = [sampleBird 100 100 False, sampleBird 120 110 False,
               sampleBird 105 103 True, sampleBird 200 400 False]" "pop sampleGame = []"
      "lastBirdSpawn sampleGame = 900"
    by (simp_all add: sampleGame_def)
  note t1 = tick_removes_birds_out_of_bounds_or_hit
      [OF a, where width = 210 and height = 412 and now = 1030 and hitTime = 1000
         and lm = pointingHand and rest = "[]" and ?r1.0 = "3 / 4" and ?r2.0 = "1 / 2" and ?r3.0 = "1 / 2"]
  note t2 = tick_removes_birds_out_of_bounds_or_hit
      [OF a, where width = 210 and height = 412 and now = 1700 and hitTime = 1000
         and lm = pointingHand and rest = "[]" and ?r1.0 = "3 / 4" and ?r2.0 = "1 / 2" and ?r3.0 = "1 / 2"]
  note t3 = tick_removes_birds_out_of_bounds_or_hit
      [OF a, where width = 210 and height = 412 and now = 2101 and hitTime = 1000
         and lm = pointingHand and rest = "[]" and ?r1.0 = "3 / 4" and ?r2.0 = "1 / 2" and ?r3.0 = "1 / 2"]
  show ?thesis
    using a pointingHand_oneFinger t1 t2 t3
    by (simp add: Let_def sampleGameAfterHit_def[symmetric] sampleGameAfterHit_eq pointingHand_tip b
          sampleBird_def sample_dists)
qed

text \<open>
  C6. A bird spawned by \<^verbatim>\<open>randomBird\<close> that is never hit is removed after finitely many
  ticks. Every tick changes its \<open>x\<close> by its horizontal speed, of magnitude 4.5, and leaves it
  unhit; with \<open>N = \<lceil>(width + 2 * 28) / 4.5\<rceil>\<close>, after \<open>j\<close> ticks its \<open>x\<close> is inside
  \<open>(-28, width + 28)\<close> exactly when \<open>0 < j < N\<close>. So there is a first tick \<open>k \<le> N\<close> at which the
  moved bird fails the bounds test: before it the bird is in the list, moved once per tick
  (alone, and in a running game that holds it anywhere in its list); from it on the bird is
  gone, and the game is in the very state it would be in had the bird never been there.
\<close>

theorem unhit_bird_leaves_after_finitely_many_ticks:
  assumes "0 \<le> width" and "started s" and "\<not> gameOver s"
    and "birds s = pre @ [randomBird width height r1 r2 r3] @ post"
  shows
    "(let b = randomBird width height r1 r2 r3;
          N = nat \<lceil>(width + 2 * 28) / (9 / 2)\<rceil>
      in \<bar>bird_vx b\<bar> = 9 / 2 \<and>
         (\<forall>j. bird_x ((moveBird ^^ j) b) = bird_x b + real j * bird_vx b \<and>
              \<not> bird_hit ((moveBird ^^ j) b)) \<and>
         (\<forall>j. (- 28 < bird_x ((moveBird ^^ j) b) \<and> bird_x ((moveBird ^^ j) b) < width + 28) \<longleftrightarrow>
              (0 < j \<and> j < N)) \<and>
         (\<exists>k. 0 < k \<and> k \<le> N \<and> \<not> keepBird width height ((moveBird ^^ k) b) \<and>
            (\<forall>j. j < k \<longrightarrow> (moveAndCull width height ^^ j) [b] = [(moveBird ^^ j) b]) \<and>
            (\<forall>n. k \<le> n \<longrightarrow> (moveAndCull width height ^^ n) [b] = []) \<and>
            (\<forall>inputs. length inputs < k \<longrightarrow>
               birds (gameTicks width height s inputs) =
                 (moveAndCull width height ^^ length inputs) pre @
                 [(moveBird ^^ length inputs) b] @
                 (moveAndCull width height ^^ length inputs) post @
                 birds (gameTicks width height (s\<lparr>birds := []\<rparr>) inputs)) \<and>
            (\<forall>inputs. k \<le> length inputs \<longrightarrow>
               birds (gameTicks width height s inputs) =
                 (moveAndCull width height ^^ length inputs) pre @
                 (moveAndCull width height ^^ length inputs) post @
                 birds (gameTicks width height (s\<lparr>birds := []\<rparr>) inputs) \<and>
               gameTicks width height s inputs =
                 gameTicks width height (s\<lparr>birds := pre @ post\<rparr>) inputs)))"
proof -
  define b where "b = randomBird width height r1 r2 r3"
  define N where "N = nat \<lceil>(width + 2 * 28) / (9 / 2)\<rceil>"
  let ?keep = "\<lambda>j. keepBird width height ((moveBird ^^ j) b)"
  have speed: "\<bar>bird_vx b\<bar> = 9 / 2"
    by (simp add: b_def randomBird_def BIRD_SPEED_def Let_def)
  have motion: "\<forall>j. bird_x ((moveBird ^^ j) b) = bird_x b + real j * bird_vx b \<and>
      \<not> bird_hit ((moveBird ^^ j) b)"
    using moveBird_funpow[of _ b]
    by (simp add: moveBird_funpow_hit) (simp add: b_def randomBird_def Let_def)
  have inside: "(- 28 < bird_x ((moveBird ^^ j) b) \<and> bird_x ((moveBird ^^ j) b) < width + 28) \<longleftrightarrow>
      (0 < j \<and> j < N)" for j
    unfolding b_def N_def using assms(1) by (rule randomBird_x_inside)
  have "\<not> ?keep N"
    using inside[of N] by (auto simp add: keepBird_def BIRD_RADIUS_def)
  moreover have "0 < N"
  proof -
    have "0 < (width + 2 * 28) / (9 / 2)" using assms(1) by simp
    then have "0 < \<lceil>(width + 2 * 28) / (9 / 2)\<rceil>" by linarith
    then show ?thesis by (simp add: N_def)
  qed
  ultimately have exN: "0 < N \<and> \<not> ?keep N" by simp
  define k where "k = (LEAST k. 0 < k \<and> \<not> ?keep k)"
  have k: "0 < k" "\<not> ?keep k"
    using LeastI[of "\<lambda>k. 0 < k \<and> \<not> ?keep k" N, OF exN] by (simp_all add: k_def)
  have kN: "k \<le> N"
    unfolding k_def using exN by (rule Least_le)
  have kept: "?keep j" if "0 < j" "j < k" for j
    using not_less_Least[of j "\<lambda>k. 0 < k \<and> \<not> ?keep k"] that by (auto simp add: k_def)
  have before: "(moveAndCull width height ^^ j) [b] = [(moveBird ^^ j) b]" if "j < k" for j
    using that kept by (simp add: funpow_moveAndCull_one)
  have after: "(moveAndCull width height ^^ n) [b] = []" if "k \<le> n" for n
    using that k by (auto simp add: funpow_moveAndCull_one)
  have s: "s = s\<lparr>birds := pre @ [b] @ post\<rparr>"
    using assms(4) by (simp add: b_def)
  have run: "birds (gameTicks width height s inputs) =
      (moveAndCull width height ^^ length inputs) pre @
      (moveAndCull width height ^^ length inputs) [b] @
      (moveAndCull width height ^^ length inputs) post @
      birds (gameTicks width height (s\<lparr>birds := []\<rparr>) inputs)" for inputs
  proof -
    have "birds (gameTicks width height (s\<lparr>birds := pre @ [b] @ post\<rparr>) inputs) =
      (moveAndCull width height ^^ length inputs) (pre @ [b] @ post) @
      birds (gameTicks width height (s\<lparr>birds := []\<rparr>) inputs)"
      using assms(2,3) by (rule gameTicks_birds)
    also have "(moveAndCull width height ^^ length inputs) (pre @ [b] @ post) =
      (moveAndCull width height ^^ length inputs) pre @
      (moveAndCull width height ^^ length inputs) [b] @
      (moveAndCull width height ^^ length inputs) post"
      by (simp only: funpow_moveAndCull_append)
    finally show ?thesis using s by simp
  qed
  have runBefore: "birds (gameTicks width height s inputs) =
      (moveAndCull width height ^^ length inputs) pre @
      [(moveBird ^^ length inputs) b] @
      (moveAndCull width height ^^ length inputs) post @
      birds (gameTicks width height (s\<lparr>birds := []\<rparr>) inputs)" if "length inputs < k" for inputs
    using run[of inputs] before[OF that] by simp
  have runAfter: "birds (gameTicks width height s inputs) =
      (moveAndCull width height ^^ length inputs) pre @
      (moveAndCull width height ^^ length inputs) post @
      birds (gameTicks width height (s\<lparr>birds := []\<rparr>) inputs)" if "k \<le> length inputs" for inputs
    using run[of inputs] after[OF that] by simp
  have forget: "gameTicks width height s inputs =
      gameTicks width height (s\<lparr>birds := pre @ post\<rparr>) inputs" if "k \<le> length inputs" for inputs
  proof -
    have "gameTicks width height (s\<lparr>birds := pre @ [b] @ post\<rparr>) inputs =
        gameTicks width height (s\<lparr>birds := pre @ post\<rparr>) inputs"
      using assms(2,3) after[OF that] by (rule gameTicks_forget)
    then show ?thesis using s by simp
  qed
  have "\<exists>k. 0 < k \<and> k \<le> N \<and> \<not> keepBird width height ((moveBird ^^ k) b) \<and>
            (\<forall>j. j < k \<longrightarrow> (moveAndCull width height ^^ j) [b] = [(moveBird ^^ j) b]) \<and>
            (\<forall>n. k \<le> n \<longrightarrow> (moveAndCull width height ^^ n) [b] = []) \<and>
            (\<forall>inputs. length inputs < k \<longrightarrow>
               birds (gameTicks width height s inputs) =
                 (moveAndCull width height ^^ length inputs) pre @
                 [(moveBird ^^ length inputs) b] @
                 (moveAndCull width height ^^ length inputs) post @
                 birds (gameTicks width height (s\<lparr>birds := []\<rparr>) inputs)) \<and>
            (\<forall>inputs. k \<le> length inputs \<longrightarrow>
               birds (gameTicks width height s inputs) =
                 (moveAndCull width height ^^ length inputs) pre @
                 (moveAndCull width height ^^ length inputs) post @
                 birds (gameTicks width height (s\<lparr>birds := []\<rparr>) inputs) \<and>
               gameTicks width height s inputs =
                 gameTicks width height (s\<lparr>birds := pre @ post\<rparr>) inputs)"
    using k kN before after runBefore runAfter forget by blast
  then show ?thesis
    using speed motion inside
    unfolding Let_def b_def[symmetric] N_def[symmetric] by blast
qed

theorem unhit_bird_leaves_after_finitely_many_ticks_witness:
  "(0::real) \<le> 640 \<and>
   started (sampleGame\<lparr>birds := [randomBird 640 480 (3 / 4) (1 / 2) (1 / 2)]\<rparr>) \<and>
   \<not> gameOver (sampleGame\<lparr>birds := [randomBird 640 480 (3 / 4) (1 / 2) (1 / 2)]\<rparr>) \<and>
   nat \<lceil>((640::real) + 2 * 28) / (9 / 2)\<rceil> = 155 \<and>
   bird_x (randomBird 640 480 (3 / 4) (1 / 2) (1 / 2)) = - 28 \<and>
   bird_vx (randomBird 640 480 (3 / 4) (1 / 2) (1 / 2)) = 9 / 2 \<and>
   bird_x ((moveBird ^^ 154) (randomBird 640 480 (3 / 4) (1 / 2) (1 / 2))) = 665 \<and>
   bird_x ((moveBird ^^ 154) (randomBird 640 480 (3 / 4) (1 / 2) (1 / 2))) < 640 + 28 \<and>
   \<not> bird_x ((moveBird ^^ 155) (randomBird 640 480 (3 / 4) (1 / 2) (1 / 2))) < 640 + 28 \<and>
   (moveAndCull 640 480 ^^ 1) [randomBird 640 480 (3 / 4) (1 / 2) (1 / 2)] =
     [moveBird (randomBird 640 480 (3 / 4) (1 / 2) (1 / 2))] \<and>
   (moveAndCull 640 480 ^^ 155) [randomBird 640 480 (3 / 4) (1 / 2) (1 / 2)] = [] \<and>
   birds (gameTicks 640 480 (sampleGame\<lparr>birds := [randomBird 640 480 (3 / 4) (1 / 2) (1 / 2)]\<rparr>)
            [(0, 0, 0, 0)]) =
     [moveBird (randomBird 640 480 (3 / 4) (1 / 2) (1 / 2))] \<and>
   gameTicks 640 480 (sampleGame\<lparr>birds := [randomBird 640 480 (3 / 4) (1 / 2) (1 / 2)]\<rparr>)
       (replicate 155 (0, 0, 0, 0)) =
     gameTicks 640 480 (sampleGame\<lparr>birds := []\<rparr>) (replicate 155 (0, 0, 0, 0))"
proof -
  let ?b = "randomBird 640 480 (3 / 4) (1 / 2) (1 / 2)"
  let ?s = "sampleGame\<lparr>birds := [?b]\<rparr>"
  have a: "(0::real) \<le> 640" by simp
  have c: "started ?s" "\<not> gameOver ?s" by (simp_all add: sampleGame_def)
  have d: "birds ?s = [] @ [?b] @ []" by simp
  have n: "nat \<lceil>((640::real) + 2 * 28) / (9 / 2)\<rceil> = 155" by simp
  have e: "bird_x ?b = - 28" "bird_vx ?b = 9 / 2"
    by (simp_all add: randomBird_def BIRD_RADIUS_def BIRD_SPEED_def)
  have first: "keepBird 640 480 (moveBird ?b)"
    by (simp add: keepBird_def moveBird_def randomBird_def BIRD_RADIUS_def BIRD_SPEED_def)
  have empty: "birds (gameTicks 640 480 (sampleGame\<lparr>birds := []\<rparr>) [(0, 0, 0, 0)]) = []"
    by (simp add: gameTick_def sampleGame_def moveAndCull_def BIRD_SPAWN_INTERVAL_def)
  note t = unhit_bird_leaves_after_finitely_many_ticks [OF a c d, unfolded Let_def n]
  note motion' = t[THEN conjunct2, THEN conjunct1, rule_format, THEN conjunct1]
  note inside = t[THEN conjunct2, THEN conjunct2, THEN conjunct1, rule_format]
  note ex = t[THEN conjunct2, THEN conjunct2, THEN conjunct2]
  have motion: "bird_x ((moveBird ^^ j) ?b) = bird_x ?b + real j * bird_vx ?b" for j
    by (rule motion')
  from ex obtain k where kk:
    "0 < k \<and> k \<le> 155 \<and> \<not> keepBird 640 480 ((moveBird ^^ k) ?b) \<and>
     (\<forall>j. j < k \<longrightarrow> (moveAndCull 640 480 ^^ j) [?b] = [(moveBird ^^ j) ?b]) \<and>
     (\<forall>n. k \<le> n \<longrightarrow> (moveAndCull 640 480 ^^ n) [?b] = []) \<and>
     (\<forall>inputs. length inputs < k \<longrightarrow>
        birds (gameTicks 640 480 ?s inputs) =
          (moveAndCull 640 480 ^^ length inputs) [] @ [(moveBird ^^ length inputs) ?b] @
          (moveAndCull 640 480 ^^ length inputs) [] @
          birds (gameTicks 640 480 (?s\<lparr>birds := []\<rparr>) inputs)) \<and>
     (\<forall>inputs. k \<le> length inputs \<longrightarrow>
        birds (gameTicks 640 480 ?s inputs) =
          (moveAndCull 640 480 ^^ length inputs) [] @
          (moveAndCull 640 480 ^^ length inputs) [] @
          birds (gameTicks 640 480 (?s\<lparr>birds := []\<rparr>) inputs) \<and>
        gameTicks 640 480 ?s inputs = gameTicks 640 480 (?s\<lparr>birds := [] @ []\<rparr>) inputs)" ..
  note k = kk[THEN conjunct1] kk[THEN conjunct2, THEN conjunct1]
    kk[THEN conjunct2, THEN conjunct2, THEN conjunct1]
  note before = kk[THEN conjunct2, THEN conjunct2, THEN conjunct2, THEN conjunct1, rule_format]
  note after = kk[THEN conjunct2, THEN conjunct2, THEN conjunct2, THEN conjunct2, THEN conjunct1,
      rule_format]
  note runBefore = kk[THEN conjunct2, THEN conjunct2, THEN conjunct2, THEN conjunct2,
      THEN conjunct2, THEN conjunct1, rule_format]
  note forget = kk[THEN conjunct2, THEN conjunct2, THEN conjunct2, THEN conjunct2,
      THEN conjunct2, THEN conjunct2, rule_format, THEN conjunct2]
  have k1: "1 < k"
  proof (rule ccontr)
    assume "\<not> 1 < k"
    with k(1) have "k = 1" by simp
    with k(3) first show False by simp
  qed
  have x154: "bird_x ((moveBird ^^ 154) ?b) = 665" using motion[of 154] e by simp
  have in154: "bird_x ((moveBird ^^ 154) ?b) < 640 + 28" using inside[of 154] by simp
  have out155: "\<not> bird_x ((moveBird ^^ 155) ?b) < 640 + 28"
    using inside[of 155] motion[of 155] e by simp
  have one: "(moveAndCull 640 480 ^^ 1) [?b] = [moveBird ?b]" using before[OF k1] by simp
  have gone: "(moveAndCull 640 480 ^^ 155) [?b] = []" using after[OF k(2)] .
  have tick1: "birds (gameTicks 640 480 ?s [(0, 0, 0, 0)]) = [moveBird ?b]"
    using runBefore[of "[(0, 0, 0, 0)]"] k1 empty by (simp add: moveAndCull_Nil)
  have run155: "gameTicks 640 480 ?s (replicate 155 (0, 0, 0, 0)) =
      gameTicks 640 480 (sampleGame\<lparr>birds := []\<rparr>) (replicate 155 (0, 0, 0, 0))"
    using forget[of "replicate 155 (0, 0, 0, 0)"] k(2) by simp
  show ?thesis
    using a c n e x154 in154 out155 one gone tick1 run155 by simp
qed

section \<open>Spawning\<close>

text \<open>
  C7, as stated, fails on a canvas lower than 160: there \<open>height - 160\<close> is negative and the
  bird starts above the margin \<open>[80, height - 80]\<close>, which is empty.
\<close>

theorem randomBird_on_low_canvas_leaves_margin:
  "bird_y (randomBird 640 100 (3 / 4) (1 / 2) (1 / 2)) = 50 \<and>
   \<not> (80 \<le> bird_y (randomBird 640 100 (3 / 4) (1 / 2) (1 / 2)) \<and>
      bird_y (randomBird 640 100 (3 / 4) (1 / 2) (1 / 2)) \<le> 100 - 80)"
  by (simp add: randomBird_def)

text \<open>
  C7, amended. For every outcome of the three random choices (each in \<open>[0, 1)\<close>) the bird of
  \<^verbatim>\<open>randomBird(width, height)\<close> starts at \<open>x = -28\<close> with horizontal velocity \<open>4.5\<close> (from the
  left) or at \<open>x = width + 28\<close> with horizontal velocity \<open>-4.5\<close> (from the right), has a
  vertical drift in \<open>[-0.6, 0.6]\<close>, radius 28 and is not hit; and when the height is at least
  160 its \<open>y\<close> lies in \<open>[80, height - 80]\<close>.
\<close>

theorem randomBird_spawns_outside_moving_inward:
  assumes "0 \<le> r1" "r1 < 1" "0 \<le> r2" "r2 < 1" "0 \<le> r3" "r3 < 1"
  shows
    "(let b = randomBird width height r1 r2 r3
      in (if r1 > 1 / 2 then bird_x b = - 28 \<and> bird_vx b = 9 / 2
          else bird_x b = width + 28 \<and> bird_vx b = - (9 / 2)) \<and>
         - (6 / 10) \<le> bird_vy b \<and> bird_vy b \<le> 6 / 10 \<and>
         (160 \<le> height \<longrightarrow> 80 \<le> bird_y b \<and> bird_y b \<le> height - 80) \<and>
         bird_radius b = 28 \<and> bird_hit b = False)"
proof -
  have "0 \<le> r2 * (height - 160)" if "160 \<le> height"
    using assms that by simp
  moreover have "r2 * (height - 160) \<le> 1 * (height - 160)" if "160 \<le> height"
    using assms that by (intro mult_right_mono) auto
  ultimately show ?thesis using assms
    by (auto simp add: randomBird_def BIRD_RADIUS_def BIRD_SPEED_def Let_def)
qed

theorem randomBird_spawns_outside_moving_inward_witness:
  "(0::real) \<le> 3 / 4 \<and> (3 / 4 :: real) < 1 \<and> (0::real) \<le> 1 / 4 \<and> (1 / 4 :: real) < 1 \<and>
   (160::real) \<le> 480 \<and>
   bird_x (randomBird 640 480 (3 / 4) (1 / 4) (3 / 4)) = - 28 \<and>
   bird_vx (randomBird 640 480 (3 / 4) (1 / 4) (3 / 4)) = 9 / 2 \<and>
   bird_x (randomBird 640 480 (1 / 4) (1 / 4) (3 / 4)) = 668 \<and>
   bird_vx (randomBird 640 480 (1 / 4) (1 / 4) (3 / 4)) = - (9 / 2) \<and>
   bird_y (randomBird 640 480 (3 / 4) (1 / 4) (3 / 4)) = 160 \<and>
   bird_vy (randomBird 640 480 (3 / 4) (1 / 4) (3 / 4)) = 3 / 10 \<and>
   bird_radius (randomBird 640 480 (3 / 4) (1 / 4) (3 / 4)) = 28 \<and>
   \<not> bird_hit (randomBird 640 480 (3 / 4) (1 / 4) (3 / 4))"
proof -
  have a: "(0::real) \<le> 3 / 4" "(3 / 4 :: real) < 1" "(0::real) \<le> 1 / 4" "(1 / 4 :: real) < 1"
    "(160::real) \<le> 480"
    by simp_all
  have y: "bird_y (randomBird 640 480 (3 / 4) (1 / 4) (3 / 4)) = 160"
    "bird_vy (randomBird 640 480 (3 / 4) (1 / 4) (3 / 4)) = 3 / 10"
    by (simp_all add: randomBird_def)
  show ?thesis
    using a y
      randomBird_spawns_outside_moving_inward [OF a(1,2) a(3,4) a(1,2), of 640 480]
      randomBird_spawns_outside_moving_inward [OF a(3,4) a(3,4) a(1,2), of 640 480]
    by (simp add: Let_def)
qed

section \<open>The session timer\<close>

lemma timerTick_funpow:
  assumes "started s" "\<not> gameOver s" "1 \<le> timer s"
  shows "(timerTick ^^ n) s =
     (if int n < timer s then s\<lparr>timer := timer s - int n\<rparr>
      else s\<lparr>gameOver := True, timer := 0\<rparr>)"
  using assms
proof (induction n)
  case 0
  then show ?case by simp
next
  case (Suc n)
  then show ?case by (auto simp add: timerTick_def)
qed

lemma score_timerTick: "score (timerTick s) = score s"
  by (simp add: timerTick_def)

text \<open>
  C8. From a session with 60 seconds left, started, not over and with score 0, sixty timer
  ticks lead to game over with 0 seconds left and score 0, and no fewer do: after \<open>n < 60\<close>
  ticks the game is not over and \<open>60 - n\<close> seconds are left. The tick that finds one second
  left sets the time to 0 and the game over at once; the time is never negative; no tick
  changes the score.
\<close>

theorem sixty_timer_ticks_end_the_game:
  assumes "timer s = 60" and "started s" and "\<not> gameOver s" and "score s = 0"
  shows
    "gameOver ((timerTick ^^ 60) s) \<and> timer ((timerTick ^^ 60) s) = 0 \<and>
     score ((timerTick ^^ 60) s) = 0 \<and>
     (\<forall>n. n < 60 \<longrightarrow> \<not> gameOver ((timerTick ^^ n) s) \<and> timer ((timerTick ^^ n) s) = 60 - int n) \<and>
     (\<forall>n. 0 \<le> timer ((timerTick ^^ n) s) \<and> score ((timerTick ^^ n) s) = 0) \<and>
     (\<forall>t. started t \<and> \<not> gameOver t \<and> timer t = 1 \<longrightarrow>
            timer (timerTick t) = 0 \<and> gameOver (timerTick t)) \<and>
     (\<forall>t. score (timerTick t) = score t)"
proof -
  have run: "(timerTick ^^ n) s =
     (if int n < 60 then s\<lparr>timer := 60 - int n\<rparr> else s\<lparr>gameOver := True, timer := 0\<rparr>)" for n
    using timerTick_funpow[OF assms(2,3), of n] assms(1) by simp
  have "gameOver ((timerTick ^^ 60) s)" "timer ((timerTick ^^ 60) s) = 0"
    "score ((timerTick ^^ 60) s) = 0"
    using assms(4) by (simp_all add: run)
  moreover have "\<forall>n. n < 60 \<longrightarrow> \<not> gameOver ((timerTick ^^ n) s) \<and> timer ((timerTick ^^ n) s) = 60 - int n"
    using assms(3) by (simp add: run)
  moreover have "\<forall>n. 0 \<le> timer ((timerTick ^^ n) s) \<and> score ((timerTick ^^ n) s) = 0"
    using assms(4) by (simp add: run)
  moreover have "\<forall>t. started t \<and> \<not> gameOver t \<and> timer t = 1 \<longrightarrow>
            timer (timerTick t) = 0 \<and> gameOver (timerTick t)"
    by (simp add: timerTick_def)
  moreover have "\<forall>t. score (timerTick t) = score t"
    by (simp add: score_timerTick)
  ultimately show ?thesis by blast
qed

theorem sixty_timer_ticks_end_the_game_witness:
  "timer (startGame (game_initial 0)) = 60 \<and> started (startGame (game_initial 0)) \<and>
   \<not> gameOver (startGame (game_initial 0)) \<and> score (startGame (game_initial 0)) = 0 \<and>
   gameOver ((timerTick ^^ 60) (startGame (game_initial 0))) \<and>
   timer ((timerTick ^^ 60) (startGame (game_initial 0))) = 0 \<and>
   score ((timerTick ^^ 60) (startGame (game_initial 0))) = 0 \<and>
   \<not> gameOver ((timerTick ^^ 59) (startGame (game_initial 0))) \<and>
   timer ((timerTick ^^ 59) (startGame (game_initial 0))) = 1"
proof -
  have a: "timer (startGame (game_initial 0)) = 60" "started (startGame (game_initial 0))"
    "\<not> gameOver (startGame (game_initial 0))" "score (startGame (game_initial 0)) = 0"
    by (simp_all add: startGame_def handleClear_game_def game_initial_def GAME_DURATION_def)
  have b: "(59::nat) < 60" by simp
  from sixty_timer_ticks_end_the_game [OF a]
  have "gameOver ((timerTick ^^ 60) (startGame (game_initial 0)))"
    "timer ((timerTick ^^ 60) (startGame (game_initial 0))) = 0"
    "score ((timerTick ^^ 60) (startGame (game_initial 0))) = 0"
    "\<not> gameOver ((timerTick ^^ 59) (startGame (game_initial 0)))"
    "timer ((timerTick ^^ 59) (startGame (game_initial 0))) = 60 - int 59"
    using b by blast+
  then show ?thesis using a by simp
qed

end
